theory Spec2Isabelle
  imports Main "HOL-Library.AList"
begin

section \<open>JavaScript values, objects and completions\<close>

text \<open>
  The widget \<^verbatim>\<open>pl.Modal\<close> (file \<^verbatim>\<open>src/scripts/ts/PLModal.ts\<close>) is embedded as functions
  on an explicit state.  A call either returns or throws; in both cases the mutations made so
  far persist, so every operation yields the exception (if any) together with the state.
\<close>

datatype exn = TypeError | HierarchyRequestError | NotFoundError

definition returns :: "'s \<Rightarrow> exn option \<times> 's" where
  "returns s = (None, s)"

definition throw :: "exn \<Rightarrow> 's \<Rightarrow> exn option \<times> 's" where
  "throw e s = (Some e, s)"

text \<open>Statement sequencing: the second statement runs only when the first did not throw.\<close>

definition and_then :: "exn option \<times> 's \<Rightarrow> ('s \<Rightarrow> exn option \<times> 's) \<Rightarrow> exn option \<times> 's" where
  "and_then r f = (case r of (None, s) \<Rightarrow> f s | (Some e, s) \<Rightarrow> (Some e, s))"

text \<open>
  Property values are plain data: \<^verbatim>\<open>undefined\<close>, \<^verbatim>\<open>null\<close>, booleans and strings (strings
  are lists of code units below 256).
\<close>

datatype jsval = JUndefined | JNull | JBool bool | JStr string

fun truthy :: "jsval \<Rightarrow> bool" where
  "truthy JUndefined = False"
| "truthy JNull = False"
| "truthy (JBool b) = b"
| "truthy (JStr s) = (s \<noteq> [])"

fun toString :: "jsval \<Rightarrow> string" where
  "toString JUndefined = ''undefined''"
| "toString JNull = ''null''"
| "toString (JBool b) = (if b then ''true'' else ''false'')"
| "toString (JStr s) = s"

text \<open>
  An object: its own enumerable properties in insertion order, the enumerable properties it
  inherits through its prototype chain, and whether \<^verbatim>\<open>Object.prototype\<close> is on that chain (it
  is for an object literal, it is not for \<^verbatim>\<open>Object.create(null)\<close>).  The objects are those
  that object literals with data values and \<^verbatim>\<open>JSON.parse\<close> produce, and prototype chains of
  such objects: every property is an enumerable, writable data property.  Property values
  being data, no property of an object is a function of its own making: the only methods are
  the built-in ones of \<^verbatim>\<open>Object.prototype\<close>.
\<close>

record jsobject =
  own :: "(string \<times> jsval) list"
  inherited :: "(string \<times> jsval) list"
  object_prototype :: bool

definition empty_object :: jsobject where
  "empty_object = \<lparr>own = [], inherited = [], object_prototype = True\<rparr>"

text \<open>
  Does \<^verbatim>\<open>obj.hasOwnProperty\<close> evaluate to the built-in function?  Only when no own and no
  inherited property of that name hides it and \<^verbatim>\<open>Object.prototype\<close> is on the chain.
\<close>

definition builtin_hasOwnProperty :: "jsobject \<Rightarrow> bool" where
  "builtin_hasOwnProperty obj =
     (map_of (own obj) ''hasOwnProperty'' = None \<and>
      map_of (inherited obj) ''hasOwnProperty'' = None \<and>
      object_prototype obj)"

text \<open>
  The call \<^verbatim>\<open>obj.hasOwnProperty(k)\<close>: a \<^verbatim>\<open>TypeError\<close> when \<^verbatim>\<open>obj.hasOwnProperty\<close> is a data
  value or \<^verbatim>\<open>undefined\<close>, else whether \<open>k\<close> is an own property.
\<close>

definition hasOwnProperty :: "jsobject \<Rightarrow> string \<Rightarrow> exn + bool" where
  "hasOwnProperty obj k =
     (if builtin_hasOwnProperty obj then Inr (map_of (own obj) k \<noteq> None) else Inl TypeError)"

text \<open>
  \<^verbatim>\<open>obj[k]\<close> for a name \<open>k\<close> that \<^verbatim>\<open>Object.prototype\<close> does not define, or that is an own
  property: own property, else inherited, else \<^verbatim>\<open>undefined\<close>.  (The widget reads own
  properties of the settings and the two options of the merged object, which are own
  properties too.)
\<close>

definition get_prop :: "jsobject \<Rightarrow> string \<Rightarrow> jsval" where
  "get_prop obj k =
     (case map_of (own obj) k of
        Some v \<Rightarrow> v
      | None \<Rightarrow> (case map_of (inherited obj) k of Some v \<Rightarrow> v | None \<Rightarrow> JUndefined))"

text \<open>
  \<^verbatim>\<open>obj[k] = v\<close>: an existing own property keeps its place, a new one goes last.  The name
  \<^verbatim>\<open>__proto__\<close> is special: unless the object has or inherits a data property of that name, or
  lacks \<^verbatim>\<open>Object.prototype\<close>, the assignment runs the setter of \<^verbatim>\<open>Object.prototype\<close>, which
  creates no property; it cuts the prototype chain when \<open>v\<close> is \<^verbatim>\<open>null\<close> and ignores every
  other data value.
\<close>

definition set_prop :: "jsobject \<Rightarrow> string \<Rightarrow> jsval \<Rightarrow> jsobject" where
  "set_prop obj k v =
     (if k = ''__proto__'' \<and> map_of (own obj) k = None \<and> map_of (inherited obj) k = None \<and>
         object_prototype obj
      then (if v = JNull then obj\<lparr>inherited := [], object_prototype := False\<rparr> else obj)
      else obj\<lparr>own := AList.update k v (own obj)\<rparr>)"

text \<open>
  An object that has or inherits a data property \<^verbatim>\<open>__proto__\<close>, or has no
  \<^verbatim>\<open>Object.prototype\<close>, treats that name like any other in an assignment.
\<close>

definition plain_proto :: "jsobject \<Rightarrow> bool" where
  "plain_proto obj =
     (map_of (own obj) ''__proto__'' \<noteq> None \<or> map_of (inherited obj) ''__proto__'' \<noteq> None \<or>
      \<not> object_prototype obj)"

text \<open>
  The keys \<^verbatim>\<open>for (k in obj)\<close> visits: own ones first, then inherited ones not shadowed.  (Names
  that are array indices are visited before the others; this changes the place of a new
  property in the target of the merge and nothing else.)
\<close>

definition for_in_keys :: "jsobject \<Rightarrow> string list" where
  "for_in_keys obj =
     remdups (map fst (own obj)) @
     remdups (filter (\<lambda>k. k \<notin> set (map fst (own obj))) (map fst (inherited obj)))"

section \<open>The capability probe\<close>

text \<open>
  \<^verbatim>\<open>transEndEventNames\<close>, in the order the object literal lists its keys.
\<close>

definition transEndEventNames :: "(string \<times> string) list" where
  "transEndEventNames =
     [(''WebkitTransition'', ''webkitTransitionEnd''),
      (''MozTransition'', ''transitionend''),
      (''OTransition'', ''otransitionend''),
      (''transition'', ''transitionend'')]"

text \<open>
  The \<^verbatim>\<open>for ... in\<close> loop of \<^verbatim>\<open>transitionSelect\<close>.  The argument \<open>style\<close> is the set of
  property names \<open>name\<close> for which \<^verbatim>\<open>el.style[name] !== undefined\<close> on a fresh \<^verbatim>\<open>div\<close>
  of the running browser.  Falling off the end of the loop returns \<^verbatim>\<open>undefined\<close>: \<open>None\<close>.
\<close>

fun transitionSelect_loop :: "string set \<Rightarrow> (string \<times> string) list \<Rightarrow> string option" where
  "transitionSelect_loop style [] = None"
| "transitionSelect_loop style ((name, ev) # rest) =
     (if name \<in> style then Some ev else transitionSelect_loop style rest)"

definition transitionSelect :: "string set \<Rightarrow> string option" where
  "transitionSelect style = transitionSelect_loop style transEndEventNames"

section \<open>The settings merge\<close>

text \<open>
  The loop of \<^verbatim>\<open>extendsDefaults\<close> over the keys still to visit.  The test
  \<^verbatim>\<open>settings.hasOwnProperty(property)\<close> may throw; the exception leaves the loop and the
  function, with \<open>source\<close> as the iterations before have made it.
\<close>

fun extendsDefaults_loop :: "jsobject \<Rightarrow> jsobject \<Rightarrow> string list \<Rightarrow> exn option \<times> jsobject" where
  "extendsDefaults_loop source settings [] = returns source"
| "extendsDefaults_loop source settings (property # rest) =
     (case hasOwnProperty settings property of
        Inl e \<Rightarrow> throw e source
      | Inr has \<Rightarrow>
          extendsDefaults_loop
            (if has then set_prop source property (get_prop settings property) else source)
            settings rest)"

definition extendsDefaults :: "jsobject \<Rightarrow> jsobject \<Rightarrow> exn option \<times> jsobject" where
  "extendsDefaults source settings = extendsDefaults_loop source settings (for_in_keys settings)"

text \<open>The constructor's argument: \<^verbatim>\<open>undefined\<close> (or omitted), \<^verbatim>\<open>null\<close>, or an object.\<close>

datatype settings_arg = ArgUndefined | ArgNull | ArgObject jsobject

text \<open>\<^verbatim>\<open>settings || {}\<close>\<close>

fun settings_or_empty :: "settings_arg \<Rightarrow> jsobject" where
  "settings_or_empty ArgUndefined = empty_object"
| "settings_or_empty ArgNull = empty_object"
| "settings_or_empty (ArgObject obj) = obj"

definition defaults :: jsobject where
  "defaults =
     \<lparr>own = [(''className'', JStr ''''), (''avoidClose'', JBool True)], inherited = [],
      object_prototype = True\<rparr>"

section \<open>The document\<close>

text \<open>
  The nodes that can have children are named by constructors: the document node itself, the
  \<^verbatim>\<open>html\<close> element and the \<^verbatim>\<open>body\<close> element of the page, the elements the widget builds, and
  the other elements of the page (\<open>Ext\<close>; none of them is an \<^verbatim>\<open>html\<close>, \<^verbatim>\<open>body\<close> or
  \<^verbatim>\<open>frameset\<close> element).  A text node carries its identity and its data.
\<close>

datatype elem =
  DocumentNode | Html | Body | Overlay | Dialog | ContentSlot | CloseButton | Ext nat

datatype node = El elem | Text nat string

datatype target = Document | Target elem

datatype handler = EscKeyHandler | CloseClickHandler | ToggleTransitionend

datatype callback = ReAttach

text \<open>
  The document store: parent pointers (an association list, absent = \<^verbatim>\<open>null\<close>), child lists,
  class names and the number of text nodes created so far.
\<close>

record dom =
  parents :: "(node \<times> elem) list"
  childNodes :: "elem \<Rightarrow> node list"
  className :: "elem \<Rightarrow> string"
  text_nodes :: nat

text \<open>\<^verbatim>\<open>n.parentNode\<close>; the document node has no parent.\<close>

definition parentNode :: "dom \<Rightarrow> node \<Rightarrow> elem option" where
  "parentNode d n = (if n = El DocumentNode then None else map_of (parents d) n)"

text \<open>
  \<^verbatim>\<open>document.body\<close>: the \<^verbatim>\<open>body\<close> element, as long as it is a child of the \<^verbatim>\<open>html\<close> element
  and that one is the child of the document; else \<^verbatim>\<open>null\<close>.
\<close>

definition document_body :: "dom \<Rightarrow> elem option" where
  "document_body d =
     (if parentNode d (El Html) = Some DocumentNode \<and> parentNode d (El Body) = Some Html
      then Some Body else None)"

text \<open>\<^verbatim>\<open>document.createElement('div')\<close> for the element named \<open>e\<close>: no parent, no child, no class.\<close>

definition createElement :: "elem \<Rightarrow> dom \<Rightarrow> dom" where
  "createElement e d =
     d\<lparr>parents := AList.delete (El e) (parents d),
       childNodes := (childNodes d)(e := []),
       className := (className d)(e := [])\<rparr>"

definition createTextNode :: "string \<Rightarrow> dom \<Rightarrow> node \<times> dom" where
  "createTextNode txt d = (Text (text_nodes d) txt, d\<lparr>text_nodes := Suc (text_nodes d)\<rparr>)"

definition set_className :: "elem \<Rightarrow> string \<Rightarrow> dom \<Rightarrow> dom" where
  "set_className e c d = d\<lparr>className := (className d)(e := c)\<rparr>"

text \<open>
  Is \<open>a\<close> the element \<open>e\<close> or one of its ancestors?  The walk along the parent pointers is
  bounded by the number of pointers in the store.
\<close>

fun ancestor_walk :: "nat \<Rightarrow> (node \<Rightarrow> elem option) \<Rightarrow> elem \<Rightarrow> elem \<Rightarrow> bool" where
  "ancestor_walk 0 par a e = (a = e)"
| "ancestor_walk (Suc k) par a e =
     (if a = e then True
      else (case par (El e) of None \<Rightarrow> False | Some p \<Rightarrow> ancestor_walk k par a p))"

definition inclusive_ancestor :: "dom \<Rightarrow> node \<Rightarrow> elem \<Rightarrow> bool" where
  "inclusive_ancestor d n e =
     (case n of
        Text i txt \<Rightarrow> False
      | El a \<Rightarrow> ancestor_walk (length (parents d)) (parentNode d) a e)"

text \<open>Taking a node out of its parent's child list (nothing to do for a node without parent).\<close>

definition detach :: "node \<Rightarrow> dom \<Rightarrow> dom" where
  "detach n d =
     (case parentNode d n of
        None \<Rightarrow> d
      | Some p \<Rightarrow> d\<lparr>parents := AList.delete n (parents d),
                    childNodes := (childNodes d)(p := remove1 n (childNodes d p))\<rparr>)"

text \<open>
  \<^verbatim>\<open>parent.appendChild(child)\<close>: refused with a \<^verbatim>\<open>HierarchyRequestError\<close> when \<open>child\<close> is
  the document node, or \<open>parent\<close> or one of its ancestors; otherwise the child leaves its old
  parent and becomes the last child of \<open>parent\<close>.  (The widget appends to elements only.)
\<close>

definition appendChild :: "elem \<Rightarrow> node \<Rightarrow> dom \<Rightarrow> exn option \<times> dom" where
  "appendChild parent child d =
     (if child = El DocumentNode \<or> inclusive_ancestor d child parent
      then throw HierarchyRequestError d
      else (let d1 = detach child d
            in returns (d1\<lparr>parents := AList.update child parent (parents d1),
                          childNodes := (childNodes d1)(parent := childNodes d1 parent @ [child])\<rparr>)))"

text \<open>\<^verbatim>\<open>parent.removeChild(child)\<close>: a \<^verbatim>\<open>NotFoundError\<close> unless \<open>child\<close> is a child of \<open>parent\<close>.\<close>

definition removeChild :: "elem \<Rightarrow> node \<Rightarrow> dom \<Rightarrow> exn option \<times> dom" where
  "removeChild parent child d =
     (if parentNode d child = Some parent then returns (detach child d)
      else throw NotFoundError d)"

text \<open>\<^verbatim>\<open>e.innerHTML = ''\<close>: every child of \<open>e\<close> is removed and has no parent afterwards.\<close>

definition clear_innerHTML :: "elem \<Rightarrow> dom \<Rightarrow> dom" where
  "clear_innerHTML e d =
     d\<lparr>parents := filter (\<lambda>(n, p). n \<notin> set (childNodes d e)) (parents d),
       childNodes := (childNodes d)(e := [])\<rparr>"

text \<open>
  The registered event listeners \<open>(target, type, callback)\<close>, in order of registration.
  \<^verbatim>\<open>addEventListener\<close> ignores a listener that is registered already;
  \<^verbatim>\<open>removeEventListener\<close> drops it.
\<close>

type_synonym registry = "(target \<times> string \<times> handler) list"

definition addEventListener :: "target \<Rightarrow> string \<Rightarrow> handler \<Rightarrow> registry \<Rightarrow> registry" where
  "addEventListener t ty h ls = (if (t, ty, h) \<in> set ls then ls else ls @ [(t, ty, h)])"

definition removeEventListener :: "target \<Rightarrow> string \<Rightarrow> handler \<Rightarrow> registry \<Rightarrow> registry" where
  "removeEventListener t ty h ls = removeAll (t, ty, h) ls"

text \<open>The pending timers \<open>(remaining milliseconds, callback)\<close>, in order of creation.\<close>

definition setTimeout :: "callback \<Rightarrow> nat \<Rightarrow> (nat \<times> callback) list \<Rightarrow> (nat \<times> callback) list" where
  "setTimeout cb delay ts = ts @ [(delay, cb)]"

text \<open>An event type that is \<^verbatim>\<open>undefined\<close> is converted to the string \<^verbatim>\<open>"undefined"\<close>.\<close>

definition event_type :: "string option \<Rightarrow> string" where
  "event_type name = (case name of None \<Rightarrow> ''undefined'' | Some ty \<Rightarrow> ty)"

section \<open>Notification channels\<close>

text \<open>
  Modelled from the spec: the class \<^verbatim>\<open>PLEvent\<close> is not part of the source file.  The spec
  describes it as a channel with "register listener" and "fire" operations, fired with no
  arguments.  A channel object records how often it was fired; its listeners are taken not to
  touch the widget or the document.
\<close>

record plevent =
  fired :: nat

definition fire :: "plevent \<Rightarrow> plevent" where
  "fire ev = ev\<lparr>fired := Suc (fired ev)\<rparr>"

section \<open>The widget\<close>

text \<open>
  The instance and what it acts on: the document it lives in, the listeners and timers it has
  registered, its private fields (\<^verbatim>\<open>_isOpen\<close>, \<^verbatim>\<open>_modalClose\<close>, \<^verbatim>\<open>_modalOpen\<close>,
  \<^verbatim>\<open>_settings\<close>, \<^verbatim>\<open>_transitionend\<close>, \<^verbatim>\<open>_closeButton\<close>; \<open>None\<close> is \<^verbatim>\<open>undefined\<close>), and
  the channel objects allocated so far, addressed by number.  The fields \<^verbatim>\<open>_overlay\<close>,
  \<^verbatim>\<open>_modal\<close> and \<^verbatim>\<open>_content\<close> always hold \<open>Overlay\<close>, \<open>Dialog\<close> and \<open>ContentSlot\<close>.
\<close>

record modal =
  doc :: dom
  listeners :: registry
  timers :: "(nat \<times> callback) list"
  m_isOpen :: bool
  m_modalClose :: "nat option"
  m_modalOpen :: "nat option"
  m_settings :: jsobject
  m_transitionend :: "string option"
  m_closeButton :: "elem option"
  heap :: "nat \<Rightarrow> plevent"
  allocated :: nat

definition on_doc :: "(dom \<Rightarrow> exn option \<times> dom) \<Rightarrow> modal \<Rightarrow> exn option \<times> modal" where
  "on_doc f s = (case f (doc s) of (r, d) \<Rightarrow> (r, s\<lparr>doc := d\<rparr>))"

text \<open>\<^verbatim>\<open>new PLEvent()\<close>\<close>

definition new_PLEvent :: "modal \<Rightarrow> nat \<times> modal" where
  "new_PLEvent s =
     (allocated s,
      s\<lparr>heap := (heap s)(allocated s := \<lparr>fired = 0\<rparr>), allocated := Suc (allocated s)\<rparr>)"

definition fire_at :: "nat \<Rightarrow> modal \<Rightarrow> modal" where
  "fire_at r s = s\<lparr>heap := (heap s)(r := fire (heap s r))\<rparr>"

subsection \<open>buildOut and initializeEvents\<close>

definition buildOut :: "modal \<Rightarrow> exn option \<times> modal" where
  "buildOut s =
     (let d1 = set_className Overlay ''pl-modal-overlay'' (createElement Overlay (doc s));
          d2 = set_className Dialog
                 (''pl-modal'' @ '' '' @ toString (get_prop (m_settings s) ''className''))
                 (createElement Dialog d1);
          d3 = set_className ContentSlot ''pl-modal-content'' (createElement ContentSlot d2)
      in and_then (on_doc (appendChild Dialog (El ContentSlot)) (s\<lparr>doc := d3\<rparr>))
           (\<lambda>s. if truthy (get_prop (m_settings s) ''avoidClose'')
                then on_doc (appendChild Dialog (El CloseButton))
                       (s\<lparr>doc := set_className CloseButton ''pl-modal-close-button''
                                   (createElement CloseButton (doc s)),
                          m_closeButton := Some CloseButton\<rparr>)
                else returns s))"

definition initializeEvents :: "modal \<Rightarrow> exn option \<times> modal" where
  "initializeEvents s =
     and_then
       (if truthy (get_prop (m_settings s) ''avoidClose'')
        then (let s1 = s\<lparr>listeners := addEventListener Document ''keydown'' EscKeyHandler
                                         (listeners s)\<rparr>
              in case m_closeButton s1 of
                   None \<Rightarrow> throw TypeError s1
                 | Some b \<Rightarrow>
                     returns (s1\<lparr>listeners := addEventListener (Target b) ''click''
                                                CloseClickHandler (listeners s1)\<rparr>))
        else returns s)
       (\<lambda>s. returns (s\<lparr>listeners := addEventListener (Target Dialog)
                                      (event_type (m_transitionend s)) ToggleTransitionend
                                      (listeners s)\<rparr>))"

text \<open>
  The constructor after the merge, in a document \<open>page\<close>: the field initialiser sets
  \<^verbatim>\<open>_isOpen\<close> to \<^verbatim>\<open>false\<close>, \<^verbatim>\<open>_settings\<close> and \<^verbatim>\<open>_transitionend\<close> are assigned, then
  \<^verbatim>\<open>buildOut()\<close> and \<^verbatim>\<open>initializeEvents()\<close> run.  Nothing is registered and no channel
  exists yet.
\<close>

definition construct :: "jsobject \<Rightarrow> string option \<Rightarrow> dom \<Rightarrow> exn option \<times> modal" where
  "construct merged transitionend page =
     and_then
       (buildOut
          \<lparr>doc = page, listeners = [], timers = [], m_isOpen = False, m_modalClose = None,
           m_modalOpen = None,
           m_settings = merged,
           m_transitionend = transitionend,
           m_closeButton = None,
           heap = (\<lambda>r. \<lparr>fired = 0\<rparr>), allocated = 0\<rparr>)
       initializeEvents"

text \<open>
  \<^verbatim>\<open>new Modal(settings)\<close> in a browser whose fresh \<^verbatim>\<open>div\<close> has the style properties
  \<open>style\<close>.  An exception leaves no instance behind: what remains is the exception, the
  document and the listeners registered so far.  The merge comes first, so when it throws the
  page is untouched.
\<close>

definition new_Modal ::
  "string set \<Rightarrow> settings_arg \<Rightarrow> dom \<Rightarrow> (exn \<times> dom \<times> registry) + modal" where
  "new_Modal style settings page =
     (case extendsDefaults defaults (settings_or_empty settings) of
        (Some e, source) \<Rightarrow> Inl (e, page, [])
      | (None, merged) \<Rightarrow>
          (case construct merged (transitionSelect style) page of
             (Some e, s) \<Rightarrow> Inl (e, doc s, listeners s)
           | (None, s) \<Rightarrow> Inr s))"

subsection \<open>The completion handshake\<close>

definition onModalOpen :: "modal \<Rightarrow> exn option \<times> modal" where
  "onModalOpen s =
     (let s1 = (case m_modalOpen s of Some r \<Rightarrow> fire_at r s | None \<Rightarrow> s)
      in returns (s1\<lparr>m_isOpen := True\<rparr>))"

text \<open>
  \<^verbatim>\<open>overlay.parentNode.removeChild(overlay)\<close>: calling a method on \<^verbatim>\<open>null\<close> is a
  \<^verbatim>\<open>TypeError\<close>.
\<close>

definition removeFromDom :: "modal \<Rightarrow> exn option \<times> modal" where
  "removeFromDom s =
     and_then
       (case parentNode (doc s) (El Overlay) of
          None \<Rightarrow> throw TypeError s
        | Some p \<Rightarrow> on_doc (removeChild p (El Overlay)) s)
       (\<lambda>s. case parentNode (doc s) (El Dialog) of
               None \<Rightarrow> throw TypeError s
             | Some p \<Rightarrow> on_doc (removeChild p (El Dialog)) s)"

definition onModalClose :: "modal \<Rightarrow> exn option \<times> modal" where
  "onModalClose s =
     (let s1 = (case m_modalClose s of Some r \<Rightarrow> fire_at r s | None \<Rightarrow> s)
      in and_then (removeFromDom s1) (\<lambda>s2. returns (s2\<lparr>m_isOpen := False\<rparr>)))"

definition toggleTransitionend :: "modal \<Rightarrow> exn option \<times> modal" where
  "toggleTransitionend s =
     (let functionToCall = (if m_isOpen s then onModalClose else onModalOpen);
          s1 = s\<lparr>listeners := removeEventListener (Target Dialog)
                                (event_type (m_transitionend s)) ToggleTransitionend
                                (listeners s)\<rparr>
      in and_then (functionToCall s1)
           (\<lambda>s2. returns (s2\<lparr>timers := setTimeout ReAttach 50 (timers s2)\<rparr>)))"

text \<open>The arrow function handed to \<^verbatim>\<open>setTimeout\<close>.\<close>

fun run_callback :: "callback \<Rightarrow> modal \<Rightarrow> modal" where
  "run_callback ReAttach s =
     s\<lparr>listeners := addEventListener (Target Dialog) (event_type (m_transitionend s))
                       ToggleTransitionend (listeners s)\<rparr>"

subsection \<open>close, open and the accessors\<close>

text \<open>
  \<^verbatim>\<open>\s\<close> on code units below 256: tab, line feed, vertical tab, form feed, carriage return,
  space and no-break space.
\<close>

definition is_space :: "char \<Rightarrow> bool" where
  "is_space c = (of_char c \<in> {9, 10, 11, 12, 13, 32, 160 :: nat})"

text \<open>
  \<^verbatim>\<open>str.replace(/(\s+)?modal-open/, '')\<close>: the leftmost match is deleted.  At a position the
  pattern matches just when \<^verbatim>\<open>modal-open\<close> follows the white space that starts there (all of
  it, the quantifier being greedy), and the match covers that white space too.
\<close>

fun replace_modal_open :: "string \<Rightarrow> string" where
  "replace_modal_open [] = []"
| "replace_modal_open (c # cs) =
     (if take 10 (dropWhile is_space (c # cs)) = ''modal-open''
      then drop 10 (dropWhile is_space (c # cs))
      else c # replace_modal_open cs)"

definition close :: "modal \<Rightarrow> exn option \<times> modal" where
  "close s =
     (if \<not> m_isOpen s then returns s
      else (let d1 = set_className Overlay (replace_modal_open (className (doc s) Overlay)) (doc s);
                d2 = set_className Dialog (replace_modal_open (className d1 Dialog)) d1
            in returns (s\<lparr>doc := d2\<rparr>)))"

definition modalClose :: "modal \<Rightarrow> nat \<times> modal" where
  "modalClose s =
     (case m_modalClose s of
        None \<Rightarrow> (case new_PLEvent s of (r, s1) \<Rightarrow> (r, s1\<lparr>m_modalClose := Some r\<rparr>))
      | Some r \<Rightarrow> (r, s))"

definition modalOpen :: "modal \<Rightarrow> nat \<times> modal" where
  "modalOpen s =
     (case m_modalOpen s of
        None \<Rightarrow> (case new_PLEvent s of (r, s1) \<Rightarrow> (r, s1\<lparr>m_modalOpen := Some r\<rparr>))
      | Some r \<Rightarrow> (r, s))"

text \<open>
  The method \<^verbatim>\<open>open\<close> (the name \<open>open\<close> is reserved).  When \<^verbatim>\<open>document.body\<close> is \<^verbatim>\<open>null\<close>
  the call \<^verbatim>\<open>body.appendChild(overlay)\<close> is a \<^verbatim>\<open>TypeError\<close>.  The two
  \<^verbatim>\<open>getComputedStyle\<close> reads force a style recomputation and change nothing in the state.
\<close>

definition open_modal :: "modal \<Rightarrow> exn option \<times> modal" where
  "open_modal s =
     (if m_isOpen s then returns s
      else (case document_body (doc s) of
              None \<Rightarrow> throw TypeError s
            | Some body \<Rightarrow>
                and_then (on_doc (appendChild body (El Overlay)) s)
                  (\<lambda>s. and_then (on_doc (appendChild body (El Dialog)) s)
                     (\<lambda>s. (let d1 = set_className Overlay
                                       (className (doc s) Overlay @ '' modal-open'') (doc s);
                               d2 = set_className Dialog
                                       (className d1 Dialog @ '' modal-open'') d1
                           in returns (s\<lparr>doc := d2\<rparr>))))))"

subsection \<open>setContent\<close>

text \<open>
  The argument of \<^verbatim>\<open>setContent\<close> is a string or a node; when it is omitted (\<open>None\<close>) the
  default \<^verbatim>\<open>""\<close> applies.
\<close>

datatype content_arg = StringArg string | NodeArg node

definition setContent :: "content_arg option \<Rightarrow> modal \<Rightarrow> exn option \<times> modal" where
  "setContent content s =
     (let s1 = s\<lparr>doc := clear_innerHTML ContentSlot (doc s)\<rparr>
      in case (case content of None \<Rightarrow> StringArg [] | Some c \<Rightarrow> c) of
           StringArg txt \<Rightarrow>
             (case createTextNode txt (doc s1) of
                (n, d) \<Rightarrow> on_doc (appendChild ContentSlot n) (s1\<lparr>doc := d\<rparr>))
         | NodeArg n \<Rightarrow> on_doc (appendChild ContentSlot n) s1)"

section \<open>Events and time\<close>

text \<open>The listeners of the constructor; \<open>keyCode\<close> is the event's \<^verbatim>\<open>keyCode\<close> (if it has one).\<close>

fun call_handler :: "handler \<Rightarrow> int option \<Rightarrow> modal \<Rightarrow> exn option \<times> modal" where
  "call_handler EscKeyHandler keyCode s = (if keyCode = Some 27 then close s else returns s)"
| "call_handler CloseClickHandler keyCode s = close s"
| "call_handler ToggleTransitionend keyCode s = toggleTransitionend s"

text \<open>
  An event of type \<open>ty\<close> reaches the target \<open>t\<close>: the listeners registered there for that type
  run in order of registration.  An exception thrown by a listener is reported and does not
  stop the dispatch; the result lists the exceptions.
\<close>

fun run_listeners :: "handler list \<Rightarrow> int option \<Rightarrow> modal \<Rightarrow> exn list \<times> modal" where
  "run_listeners [] keyCode s = ([], s)"
| "run_listeners (h # hs) keyCode s =
     (case call_handler h keyCode s of
        (r, s1) \<Rightarrow>
          (case run_listeners hs keyCode s1 of
             (es, s2) \<Rightarrow> ((case r of None \<Rightarrow> es | Some e \<Rightarrow> e # es), s2)))"

definition handlers_for :: "target \<Rightarrow> string \<Rightarrow> registry \<Rightarrow> handler list" where
  "handlers_for t ty ls =
     map (\<lambda>(t', ty', h). h) (filter (\<lambda>(t', ty', h). t' = t \<and> ty' = ty) ls)"

definition dispatchEvent :: "target \<Rightarrow> string \<Rightarrow> int option \<Rightarrow> modal \<Rightarrow> exn list \<times> modal" where
  "dispatchEvent t ty keyCode s = run_listeners (handlers_for t ty (listeners s)) keyCode s"

text \<open>
  \<open>ms\<close> milliseconds pass: the timers that are due run, earliest first, the others come closer.
\<close>

definition elapse :: "nat \<Rightarrow> modal \<Rightarrow> modal" where
  "elapse ms s =
     fold (\<lambda>(t, cb). run_callback cb)
       (sort_key fst (filter (\<lambda>(t, cb). t \<le> ms) (timers s)))
       (s\<lparr>timers := map (\<lambda>(t, cb). (t - ms, cb)) (filter (\<lambda>(t, cb). \<not> t \<le> ms) (timers s))\<rparr>)"

text \<open>The transition-completion signal: the event \<^verbatim>\<open>_transitionend\<close> names reaches the dialog.\<close>

definition completion_signal :: "modal \<Rightarrow> exn list \<times> modal" where
  "completion_signal s = dispatchEvent (Target Dialog) (event_type (m_transitionend s)) None s"

text \<open>
  The completion listener is attached, and it is the only listener of the dialog for the
  completion event (the widget registers no other there).
\<close>

definition armed :: "modal \<Rightarrow> bool" where
  "armed s =
     (handlers_for (Target Dialog) (event_type (m_transitionend s)) (listeners s) =
        [ToggleTransitionend])"

text \<open>No listener of the dialog waits for the completion event.\<close>

definition disarmed :: "modal \<Rightarrow> bool" where
  "disarmed s =
     (handlers_for (Target Dialog) (event_type (m_transitionend s)) (listeners s) = [])"

text \<open>Is the node attached, that is, has it a parent?\<close>

definition attached :: "modal \<Rightarrow> elem \<Rightarrow> bool" where
  "attached s e = (parentNode (doc s) (El e) \<noteq> None)"

section \<open>Scenarios\<close>

text \<open>
  A document that consists of the \<^verbatim>\<open>html\<close> element and its empty \<^verbatim>\<open>body\<close>, and the widget
  built there with no settings.
\<close>

definition blank_page :: dom where
  "blank_page =
     \<lparr>parents = [(El Html, DocumentNode), (El Body, Html)],
      childNodes = (\<lambda>e. [])(DocumentNode := [El Html], Html := [El Body]),
      className = (\<lambda>e. []), text_nodes = 0\<rparr>"

definition fresh_modal :: modal where
  "fresh_modal = projr (new_Modal {''transition''} ArgUndefined blank_page)"

text \<open>The fresh widget after \<^verbatim>\<open>setContent(document.body)\<close>.\<close>

definition body_inside :: modal where
  "body_inside = snd (setContent (Some (NodeArg (El Body))) fresh_modal)"

text \<open>
  Settings objects: \<^verbatim>\<open>{className: "big", theme: "dark"}\<close>, \<^verbatim>\<open>{hasOwnProperty: "x"}\<close>, and
  the results of \<^verbatim>\<open>JSON.parse('{"__proto__": "x"}')\<close> and \<^verbatim>\<open>JSON.parse('{"__proto__": null}')\<close>,
  which have an own property named \<^verbatim>\<open>__proto__\<close>.
\<close>

definition themed_settings :: jsobject where
  "themed_settings =
     \<lparr>own = [(''className'', JStr ''big''), (''theme'', JStr ''dark'')], inherited = [],
      object_prototype = True\<rparr>"

definition shadowing_settings :: jsobject where
  "shadowing_settings =
     \<lparr>own = [(''hasOwnProperty'', JStr ''x'')], inherited = [], object_prototype = True\<rparr>"

definition proto_settings :: jsobject where
  "proto_settings =
     \<lparr>own = [(''__proto__'', JStr ''x'')], inherited = [], object_prototype = True\<rparr>"

definition null_proto_settings :: jsobject where
  "null_proto_settings =
     \<lparr>own = [(''__proto__'', JNull)], inherited = [], object_prototype = True\<rparr>"

text \<open>Reading an accessor \<open>n\<close> times in a row: the channels returned, and the final state.\<close>

fun repeat_access :: "(modal \<Rightarrow> nat \<times> modal) \<Rightarrow> nat \<Rightarrow> modal \<Rightarrow> nat list \<times> modal" where
  "repeat_access get 0 s = ([], s)"
| "repeat_access get (Suc n) s =
     (case get s of (r, s1) \<Rightarrow> (case repeat_access get n s1 of (rs, s2) \<Rightarrow> (r # rs, s2)))"

text \<open>Calling \<^verbatim>\<open>open()\<close> \<open>n\<close> times in a row.\<close>

fun repeat_open :: "nat \<Rightarrow> modal \<Rightarrow> modal" where
  "repeat_open 0 s = s"
| "repeat_open (Suc n) s = repeat_open n (snd (open_modal s))"

text \<open>
  The fresh widget after \<^verbatim>\<open>open()\<close> and the completion signal; after two calls of
  \<^verbatim>\<open>open()\<close> and the completion signal; and after a completion signal and 50 ms, with no
  call of \<^verbatim>\<open>open()\<close> at all.
\<close>

definition opened_modal :: modal where
  "opened_modal = snd (completion_signal (snd (open_modal fresh_modal)))"

definition twice_opened :: modal where
  "twice_opened = snd (completion_signal (repeat_open 2 fresh_modal))"

definition never_attached :: modal where
  "never_attached = elapse 50 (snd (completion_signal fresh_modal))"

text \<open>Does \<^verbatim>\<open>modal-open\<close> occur in the string?\<close>

fun occurs_open :: "string \<Rightarrow> bool" where
  "occurs_open [] = False"
| "occurs_open (c # cs) = (take 10 (c # cs) = ''modal-open'' \<or> occurs_open cs)"

text \<open>The string without its trailing white space.\<close>

definition trim_right :: "string \<Rightarrow> string" where
  "trim_right str = rev (dropWhile is_space (rev str))"

text \<open>
  Further completion signals in quick succession: the first arrives \<open>d\<^sub>1\<close> ms after the state
  given, the next \<open>d\<^sub>2\<close> ms later, and so on.
\<close>

fun burst :: "nat list \<Rightarrow> modal \<Rightarrow> modal" where
  "burst [] s = s"
| "burst (d # ds) s = burst ds (snd (completion_signal (elapse d s)))"

text \<open>The channel a completion fires: the close channel when the widget was open, else the open one.\<close>

definition completion_channel :: "modal \<Rightarrow> nat option" where
  "completion_channel s = (if m_isOpen s then m_modalClose s else m_modalOpen s)"

section \<open>Runs of the widget\<close>

text \<open>
  What can happen to a widget: calls of its public operations, the completion signal, time
  passing, and the user's gestures (a key pressed in the document, a click on the close
  button).
\<close>

datatype input =
    Open | Close | Signal | Elapse nat | ReadModalOpen | ReadModalClose
  | KeyDown int | Click | SetContent "content_arg option"

text \<open>An exception that escapes a call is reported by the page; the state stays as the call left it.\<close>

fun step :: "input \<Rightarrow> modal \<Rightarrow> modal" where
  "step Open s = snd (open_modal s)"
| "step Close s = snd (close s)"
| "step Signal s = snd (completion_signal s)"
| "step (Elapse ms) s = elapse ms s"
| "step ReadModalOpen s = snd (modalOpen s)"
| "step ReadModalClose s = snd (modalClose s)"
| "step (KeyDown k) s = snd (dispatchEvent Document ''keydown'' (Some k) s)"
| "step Click s = snd (dispatchEvent (Target CloseButton) ''click'' None s)"
| "step (SetContent c) s = snd (setContent c s)"

definition run :: "input list \<Rightarrow> modal \<Rightarrow> modal" where
  "run ins s = fold step ins s"


text \<open>
  What the handshake reads and writes: the flag, the class names and parents of overlay and
  dialog, the parents of the body and of the \<^verbatim>\<open>html\<close> element, the channels, the timers, and
  the listeners of the dialog for the completion event.
\<close>

definition view ::
  "modal \<Rightarrow>
    (bool \<times> string \<times> string) \<times> (elem option \<times> elem option \<times> elem option \<times> elem option) \<times>
    (nat option \<times> nat option \<times> (nat \<Rightarrow> plevent) \<times> nat) \<times>
    ((nat \<times> callback) list \<times> string option \<times> handler list)" where
  "view s =
     ((m_isOpen s, className (doc s) Overlay, className (doc s) Dialog),
      (parentNode (doc s) (El Overlay), parentNode (doc s) (El Dialog),
       parentNode (doc s) (El Body), parentNode (doc s) (El Html)),
      (m_modalOpen s, m_modalClose s, heap s, allocated s),
      (timers s, m_transitionend s,
       handlers_for (Target Dialog) (event_type (m_transitionend s)) (listeners s)))"



text \<open>The dialog has the completion listener and no other, or none at all.\<close>

definition steady :: "modal \<Rightarrow> bool" where
  "steady s = (armed s \<or> disarmed s)"

text \<open>
  The completion handler is registered at the dialog for the completion event only, and it is
  the only listener there.
\<close>

definition toggle_in_place :: "modal \<Rightarrow> bool" where
  "toggle_in_place s =
     (list_all
        (\<lambda>(t, ty, h).
           (h = ToggleTransitionend) =
           (t = Target Dialog \<and> ty = event_type (m_transitionend s)))
        (listeners s))"

text \<open>
  Either the completion listener is attached and no timer is pending, or it is detached and at
  most one timer, which will attach it again, is pending.
\<close>

definition rearm_pending :: "modal \<Rightarrow> bool" where
  "rearm_pending s =
     (if armed s then timers s = []
      else disarmed s \<and> (timers s = [] \<or> (\<exists>r. timers s = [(r, ReAttach)])))"

section \<open>Unfolding the model\<close>

lemmas completion_defs = returns_def throw_def and_then_def on_doc_def

lemmas object_defs = extendsDefaults_def defaults_def empty_object_def for_in_keys_def
  get_prop_def set_prop_def hasOwnProperty_def builtin_hasOwnProperty_def

lemmas dom_defs = appendChild_def removeChild_def inclusive_ancestor_def detach_def parentNode_def
  document_body_def
  createElement_def createTextNode_def set_className_def clear_innerHTML_def

lemmas registry_defs = addEventListener_def removeEventListener_def setTimeout_def event_type_def

lemmas constructor_defs = new_Modal_def construct_def buildOut_def initializeEvents_def transitionSelect_def
  transEndEventNames_def

lemma fresh_modal_fields:
  "m_isOpen fresh_modal = False"
  "m_modalOpen fresh_modal = None"
  "m_modalClose fresh_modal = None"
  "m_transitionend fresh_modal = Some ''transitionend''"
  "m_closeButton fresh_modal = Some CloseButton"
  "allocated fresh_modal = 0"
  "timers fresh_modal = []"
  "listeners fresh_modal =
     [(Document, ''keydown'', EscKeyHandler), (Target CloseButton, ''click'', CloseClickHandler),
      (Target Dialog, ''transitionend'', ToggleTransitionend)]"
  "parents (doc fresh_modal) =
     [(El Html, DocumentNode), (El Body, Html), (El ContentSlot, Dialog),
      (El CloseButton, Dialog)]"
  "className (doc fresh_modal) Overlay = ''pl-modal-overlay''"
  "className (doc fresh_modal) Dialog = ''pl-modal ''"
  "childNodes (doc fresh_modal) Body = []"
  "text_nodes (doc fresh_modal) = 0"
  by (simp_all add: fresh_modal_def blank_page_def constructor_defs completion_defs object_defs
      dom_defs registry_defs)

lemma fresh_modal_heap: "heap fresh_modal = (\<lambda>r. \<lparr>fired = 0\<rparr>)"
  by (simp add: fresh_modal_def blank_page_def constructor_defs completion_defs object_defs
      dom_defs registry_defs)

section \<open>The capability probe returns the first match\<close>

text \<open>
  Claim C7.  \<^verbatim>\<open>transitionSelect\<close> probes \<^verbatim>\<open>WebkitTransition\<close>, \<^verbatim>\<open>MozTransition\<close>,
  \<^verbatim>\<open>OTransition\<close> and \<^verbatim>\<open>transition\<close> in this order and returns the event name mapped to the
  first of them that exists on the throwaway element; when none exists it returns no value.
\<close>

theorem transitionSelect_first_match:
  "transitionSelect style =
     (if ''WebkitTransition'' \<in> style then Some ''webkitTransitionEnd''
      else if ''MozTransition'' \<in> style then Some ''transitionend''
      else if ''OTransition'' \<in> style then Some ''otransitionend''
      else if ''transition'' \<in> style then Some ''transitionend''
      else None)"
  by (simp add: transitionSelect_def transEndEventNames_def)

section \<open>The accessors are lazy and idempotent\<close>

lemma modalOpen_first:
  "m_modalOpen s = None \<Longrightarrow>
     modalOpen s =
       (allocated s,
        s\<lparr>heap := (heap s)(allocated s := \<lparr>fired = 0\<rparr>), allocated := Suc (allocated s),
          m_modalOpen := Some (allocated s)\<rparr>)"
  by (simp add: modalOpen_def new_PLEvent_def)

lemma modalOpen_again: "m_modalOpen s = Some r \<Longrightarrow> modalOpen s = (r, s)"
  by (simp add: modalOpen_def)

lemma modalOpen_field: "m_modalOpen (snd (modalOpen s)) = Some (fst (modalOpen s))"
  by (simp add: modalOpen_def new_PLEvent_def split: option.splits)

lemma modalClose_first:
  "m_modalClose s = None \<Longrightarrow>
     modalClose s =
       (allocated s,
        s\<lparr>heap := (heap s)(allocated s := \<lparr>fired = 0\<rparr>), allocated := Suc (allocated s),
          m_modalClose := Some (allocated s)\<rparr>)"
  by (simp add: modalClose_def new_PLEvent_def)

lemma modalClose_again: "m_modalClose s = Some r \<Longrightarrow> modalClose s = (r, s)"
  by (simp add: modalClose_def)

lemma modalClose_field: "m_modalClose (snd (modalClose s)) = Some (fst (modalClose s))"
  by (simp add: modalClose_def new_PLEvent_def split: option.splits)

lemma repeat_modalOpen:
  "m_modalOpen s = Some r \<Longrightarrow> repeat_access modalOpen n s = (replicate n r, s)"
  by (induction n) (simp_all add: modalOpen_again)

lemma repeat_modalClose:
  "m_modalClose s = Some r \<Longrightarrow> repeat_access modalClose n s = (replicate n r, s)"
  by (induction n) (simp_all add: modalClose_again)

text \<open>
  Claim C8.  The first read of \<^verbatim>\<open>modalOpen\<close> (field still undefined) allocates a new channel,
  one that did not exist before, and returns it; a read with the field set returns the stored
  channel and leaves the state as it is, so that any number of further reads return the very
  same channel and allocate nothing.  The same holds for \<^verbatim>\<open>modalClose\<close>.
\<close>

theorem accessors_lazy_idempotent:
  "(m_modalOpen s = None \<longrightarrow>
      fst (modalOpen s) = allocated s \<and>
      allocated (snd (modalOpen s)) = Suc (allocated s) \<and>
      heap (snd (modalOpen s)) (allocated s) = \<lparr>fired = 0\<rparr>) \<and>
   (m_modalOpen s \<noteq> None \<longrightarrow> modalOpen s = (the (m_modalOpen s), s)) \<and>
   repeat_access modalOpen n (snd (modalOpen s)) =
     (replicate n (fst (modalOpen s)), snd (modalOpen s)) \<and>
   (m_modalClose s = None \<longrightarrow>
      fst (modalClose s) = allocated s \<and>
      allocated (snd (modalClose s)) = Suc (allocated s) \<and>
      heap (snd (modalClose s)) (allocated s) = \<lparr>fired = 0\<rparr>) \<and>
   (m_modalClose s \<noteq> None \<longrightarrow> modalClose s = (the (m_modalClose s), s)) \<and>
   repeat_access modalClose n (snd (modalClose s)) =
     (replicate n (fst (modalClose s)), snd (modalClose s))"
proof -
  have o: "repeat_access modalOpen n (snd (modalOpen s)) =
      (replicate n (fst (modalOpen s)), snd (modalOpen s))"
    by (rule repeat_modalOpen) (rule modalOpen_field)
  have c: "repeat_access modalClose n (snd (modalClose s)) =
      (replicate n (fst (modalClose s)), snd (modalClose s))"
    by (rule repeat_modalClose) (rule modalClose_field)
  show ?thesis
    using o c by (auto simp: modalOpen_first modalClose_first modalOpen_again modalClose_again)
qed

theorem accessors_lazy_idempotent_witness:
  "m_modalOpen fresh_modal = None \<and> m_modalClose fresh_modal = None \<and>
   fst (modalOpen fresh_modal) = 0 \<and>
   allocated (snd (modalOpen fresh_modal)) = 1 \<and>
   fst (modalClose fresh_modal) = 0 \<and>
   m_modalOpen (snd (modalOpen fresh_modal)) \<noteq> None \<and>
   m_modalClose (snd (modalClose fresh_modal)) \<noteq> None \<and>
   modalOpen (snd (modalOpen fresh_modal)) = (0, snd (modalOpen fresh_modal)) \<and>
   modalClose (snd (modalClose fresh_modal)) = (0, snd (modalClose fresh_modal)) \<and>
   fst (repeat_access modalOpen 3 (snd (modalOpen fresh_modal))) = [0, 0, 0]"
  using accessors_lazy_idempotent [of fresh_modal 3]
    accessors_lazy_idempotent [of "snd (modalOpen fresh_modal)" 0]
    accessors_lazy_idempotent [of "snd (modalClose fresh_modal)" 0]
  by (simp add: fresh_modal_fields modalOpen_field modalClose_field numeral_3_eq_3)

section \<open>The settings merge\<close>

lemma hasOwnProperty_builtin:
  "builtin_hasOwnProperty settings \<Longrightarrow>
     hasOwnProperty settings k = Inr (map_of (own settings) k \<noteq> None)"
  by (simp add: hasOwnProperty_def)

lemma hasOwnProperty_shadowed:
  "\<not> builtin_hasOwnProperty settings \<Longrightarrow> hasOwnProperty settings k = Inl TypeError"
  by (simp add: hasOwnProperty_def)

lemma extendsDefaults_loop_returns:
  "builtin_hasOwnProperty settings \<Longrightarrow> fst (extendsDefaults_loop source settings ks) = None"
  by (induction ks arbitrary: source) (simp_all add: hasOwnProperty_builtin returns_def)

lemma extendsDefaults_loop_throws:
  "\<not> builtin_hasOwnProperty settings \<Longrightarrow> ks \<noteq> [] \<Longrightarrow>
     extendsDefaults_loop source settings ks = (Some TypeError, source)"
  by (cases ks) (simp_all add: hasOwnProperty_shadowed throw_def)

lemma own_set_prop:
  "k \<noteq> ''__proto__'' \<Longrightarrow>
     map_of (own (set_prop source p v)) k =
       (if k = p then Some v else map_of (own source) k)"
  by (auto simp: set_prop_def update_conv')

lemma get_prop_own: "map_of (own obj) k = Some v \<Longrightarrow> get_prop obj k = v"
  by (simp add: get_prop_def)

lemma extendsDefaults_loop_own:
  assumes "builtin_hasOwnProperty settings" and "k \<noteq> ''__proto__''"
  shows "map_of (own (snd (extendsDefaults_loop source settings ks))) k =
     (if k \<in> set ks \<and> map_of (own settings) k \<noteq> None then map_of (own settings) k
      else map_of (own source) k)"
proof (induction ks arbitrary: source)
  case Nil
  then show ?case by (simp add: returns_def)
next
  case (Cons p ps)
  then show ?case
    using assms
    by (auto simp: hasOwnProperty_builtin own_set_prop get_prop_own)
qed

lemma set_prop_plain:
  "plain_proto source \<Longrightarrow>
     set_prop source p v = source\<lparr>own := AList.update p v (own source)\<rparr>"
  by (auto simp: set_prop_def plain_proto_def)

lemma plain_proto_update:
  "plain_proto source \<Longrightarrow> plain_proto (source\<lparr>own := AList.update p v (own source)\<rparr>)"
  by (auto simp: plain_proto_def update_conv')

lemma extendsDefaults_loop_own_plain:
  assumes "builtin_hasOwnProperty settings"
  shows "plain_proto source \<Longrightarrow>
     map_of (own (snd (extendsDefaults_loop source settings ks))) k =
     (if k \<in> set ks \<and> map_of (own settings) k \<noteq> None then map_of (own settings) k
      else map_of (own source) k)"
proof (induction ks arbitrary: source)
  case Nil
  then show ?case by (simp add: returns_def)
next
  case (Cons p ps)
  show ?case
  proof (cases "map_of (own settings) p")
    case None
    then show ?thesis
      using assms Cons by (auto simp: hasOwnProperty_builtin)
  next
    case (Some v)
    then show ?thesis
      using assms Cons.prems
        Cons.IH [OF plain_proto_update [OF Cons.prems, of p v]]
      by (auto simp: hasOwnProperty_builtin set_prop_plain get_prop_own update_conv')
  qed
qed

lemma set_prop_setter:
  "map_of (own source) ''__proto__'' = None \<Longrightarrow> map_of (inherited source) ''__proto__'' = None \<Longrightarrow>
   object_prototype source \<Longrightarrow>
     set_prop source ''__proto__'' v =
       (if v = JNull then source\<lparr>inherited := [], object_prototype := False\<rparr> else source)"
  by (simp add: set_prop_def)

lemma set_prop_other:
  "p \<noteq> ''__proto__'' \<Longrightarrow> set_prop source p v = source\<lparr>own := AList.update p v (own source)\<rparr>"
  by (simp add: set_prop_def)

text \<open>
  A target with \<^verbatim>\<open>Object.prototype\<close> and no data property \<^verbatim>\<open>__proto__\<close> never gets an own
  property of that name from the merge.
\<close>

lemma extendsDefaults_loop_proto:
  assumes "builtin_hasOwnProperty settings"
  shows "distinct ks \<Longrightarrow> map_of (own source) ''__proto__'' = None \<Longrightarrow>
     map_of (inherited source) ''__proto__'' = None \<Longrightarrow>
     object_prototype source \<or> ''__proto__'' \<notin> set ks \<Longrightarrow>
     map_of (own (snd (extendsDefaults_loop source settings ks))) ''__proto__'' = None"
proof (induction ks arbitrary: source)
  case Nil
  then show ?case by (simp add: returns_def)
next
  case (Cons p ps)
  show ?case
  proof (cases "p = ''__proto__''")
    case True
    with Cons.prems have op: "object_prototype source" and notin: "''__proto__'' \<notin> set ps"
      by auto
    have "map_of (own (snd (extendsDefaults_loop
            (set_prop source ''__proto__'' v) settings ps))) ''__proto__'' = None" for v
      using Cons.prems notin op
      by (intro Cons.IH) (auto simp: set_prop_setter)
    moreover have "map_of (own (snd (extendsDefaults_loop source settings ps))) ''__proto__'' = None"
      using Cons.prems notin by (intro Cons.IH) auto
    ultimately show ?thesis
      using assms True by (simp add: hasOwnProperty_builtin)
  next
    case False
    have "map_of (own (snd (extendsDefaults_loop
            (set_prop source p v) settings ps))) ''__proto__'' = None" for v
      using Cons.prems False
      by (intro Cons.IH) (auto simp: set_prop_other update_conv')
    moreover have "map_of (own (snd (extendsDefaults_loop source settings ps))) ''__proto__'' = None"
      using Cons.prems False by (intro Cons.IH) auto
    ultimately show ?thesis
      using assms by (simp add: hasOwnProperty_builtin)
  qed
qed

lemma distinct_for_in_keys: "distinct (for_in_keys obj)"
  by (auto simp: for_in_keys_def)

lemma own_key_visited: "map_of (own obj) k \<noteq> None \<Longrightarrow> k \<in> set (for_in_keys obj)"
  by (auto simp: for_in_keys_def map_of_eq_None_iff)

lemma extendsDefaults_own:
  "builtin_hasOwnProperty settings \<Longrightarrow> k \<noteq> ''__proto__'' \<or> plain_proto source \<Longrightarrow>
   map_of (own (snd (extendsDefaults source settings))) k =
     (case map_of (own settings) k of Some v \<Rightarrow> Some v | None \<Rightarrow> map_of (own source) k)"
  using own_key_visited [of settings k]
  by (auto simp: extendsDefaults_def extendsDefaults_loop_own extendsDefaults_loop_own_plain
      split: option.splits)

lemma extendsDefaults_proto:
  "builtin_hasOwnProperty settings \<Longrightarrow> \<not> plain_proto source \<Longrightarrow>
   map_of (own (snd (extendsDefaults source settings))) ''__proto__'' = None"
  unfolding extendsDefaults_def
  by (rule extendsDefaults_loop_proto) (auto simp: plain_proto_def distinct_for_in_keys)

lemma extendsDefaults_returns:
  "builtin_hasOwnProperty settings \<Longrightarrow> fst (extendsDefaults source settings) = None"
  by (simp add: extendsDefaults_def extendsDefaults_loop_returns)

lemma extendsDefaults_throws:
  "\<not> builtin_hasOwnProperty settings \<Longrightarrow> for_in_keys settings \<noteq> [] \<Longrightarrow>
     extendsDefaults source settings = (Some TypeError, source)"
  by (simp add: extendsDefaults_def extendsDefaults_loop_throws)

lemma extendsDefaults_no_keys:
  "for_in_keys settings = [] \<Longrightarrow> extendsDefaults source settings = (None, source)"
  by (simp add: extendsDefaults_def returns_def)

lemma extendsDefaults_empty: "extendsDefaults source empty_object = (None, source)"
  by (simp add: extendsDefaults_def empty_object_def for_in_keys_def returns_def)

lemma plain_proto_defaults: "\<not> plain_proto defaults"
  by (simp add: plain_proto_def defaults_def)

lemma snd_and_then_field:
  assumes "\<And>s. g (snd (f s)) = g s"
  shows "g (snd (and_then r f)) = g (snd r)"
proof (cases r)
  case (Pair x s)
  then show ?thesis by (cases x) (simp_all add: and_then_def assms)
qed

lemma m_settings_on_doc: "m_settings (snd (on_doc f s)) = m_settings s"
  by (simp add: on_doc_def split: prod.splits)

lemma m_settings_buildOut: "m_settings (snd (buildOut s)) = m_settings s"
proof -
  have "m_settings (snd (if truthy (get_prop (m_settings t) ''avoidClose'')
                then on_doc (appendChild Dialog (El CloseButton))
                       (t\<lparr>doc := set_className CloseButton ''pl-modal-close-button''
                                   (createElement CloseButton (doc t)),
                          m_closeButton := Some CloseButton\<rparr>)
                else returns t)) = m_settings t" for t
    by (simp add: m_settings_on_doc returns_def)
  then show ?thesis
    unfolding buildOut_def Let_def
    by (simp add: snd_and_then_field [where g = m_settings] m_settings_on_doc)
qed

lemma m_settings_initializeEvents: "m_settings (snd (initializeEvents s)) = m_settings s"
  unfolding initializeEvents_def Let_def
  by (simp add: snd_and_then_field [where g = m_settings] returns_def throw_def
      split: option.splits)

lemma m_settings_construct:
  "m_settings (snd (construct merged transitionend page)) = merged"
  unfolding construct_def
  by (simp add: snd_and_then_field [where g = m_settings] m_settings_initializeEvents
      m_settings_buildOut)

section \<open>Facts about the document operations\<close>

lemma ancestor_walk_root: "par (El e) = None \<Longrightarrow> ancestor_walk k par a e = (a = e)"
  by (cases k) simp_all

lemma inclusive_ancestor_root:
  "parentNode d (El e) = None \<Longrightarrow> inclusive_ancestor d n e = (n = El e)"
  by (cases n) (auto simp: inclusive_ancestor_def ancestor_walk_root)

lemma ancestor_walk_body:
  assumes "par (El Body) = Some Html" and "par (El Html) = Some DocumentNode"
    and "par (El DocumentNode) = None" and "2 \<le> k"
  shows "ancestor_walk k par a Body = (a = Body \<or> a = Html \<or> a = DocumentNode)"
proof -
  from assms(4) obtain j where k: "k = Suc (Suc j)"
    by (metis Suc_le_D numeral_2_eq_2 Suc_le_mono)
  show ?thesis
    using assms(1-3) by (auto simp: k ancestor_walk_root)
qed

lemma two_pointers:
  "map_of ps a = Some x \<Longrightarrow> map_of ps b = Some y \<Longrightarrow> a \<noteq> b \<Longrightarrow> 2 \<le> length ps"
  by (cases ps; cases "tl ps") (auto split: if_splits)

lemma document_body_iff:
  "document_body d = Some b \<longleftrightarrow>
     b = Body \<and> parentNode d (El Html) = Some DocumentNode \<and> parentNode d (El Body) = Some Html"
  by (auto simp: document_body_def)

lemma document_body_cong:
  "parentNode d' (El Html) = parentNode d (El Html) \<Longrightarrow>
   parentNode d' (El Body) = parentNode d (El Body) \<Longrightarrow> document_body d' = document_body d"
  by (simp add: document_body_def)

lemma inclusive_ancestor_body:
  assumes "document_body d = Some b"
  shows "inclusive_ancestor d (El a) b = (a = Body \<or> a = Html \<or> a = DocumentNode)"
proof -
  from assms have b: "b = Body" and h: "parentNode d (El Html) = Some DocumentNode"
    and p: "parentNode d (El Body) = Some Html"
    by (simp_all add: document_body_iff)
  from h p have "2 \<le> length (parents d)"
    using two_pointers [of "parents d" "El Html" DocumentNode "El Body" Html]
    by (simp add: parentNode_def)
  then show ?thesis
    using h p ancestor_walk_body [of "parentNode d" "length (parents d)" a]
    by (simp add: inclusive_ancestor_def b parentNode_def)
qed

lemma inclusive_ancestor_Text [simp]: "inclusive_ancestor d (Text i txt) e = False"
  by (simp add: inclusive_ancestor_def)

lemma parentNode_detach:
  "parentNode (detach n d) m = (if m = n then None else parentNode d m)"
  by (simp add: detach_def parentNode_def delete_conv' split: option.splits)

lemma className_detach [simp]: "className (detach n d) = className d"
  by (simp add: detach_def split: option.splits)

lemma text_nodes_detach [simp]: "text_nodes (detach n d) = text_nodes d"
  by (simp add: detach_def split: option.splits)

lemma childNodes_detach:
  "childNodes (detach n d) e =
     (if parentNode d n = Some e then remove1 n (childNodes d e) else childNodes d e)"
  by (simp add: detach_def split: option.splits)

lemma fst_appendChild:
  "fst (appendChild p n d) =
     (if n = El DocumentNode \<or> inclusive_ancestor d n p then Some HierarchyRequestError
      else None)"
  by (simp add: appendChild_def returns_def throw_def Let_def)

lemma parentNode_appendChild:
  "n \<noteq> El DocumentNode \<Longrightarrow> \<not> inclusive_ancestor d n p \<Longrightarrow>
     parentNode (snd (appendChild p n d)) m = (if m = n then Some p else parentNode d m)"
  using parentNode_detach [of n d m]
  by (auto simp: appendChild_def returns_def Let_def parentNode_def update_conv'
      split: if_splits)

lemma className_appendChild [simp]: "className (snd (appendChild p n d)) = className d"
  by (simp add: appendChild_def returns_def throw_def Let_def)

lemma text_nodes_appendChild [simp]: "text_nodes (snd (appendChild p n d)) = text_nodes d"
  by (simp add: appendChild_def returns_def throw_def Let_def)

lemma childNodes_appendChild:
  "n \<noteq> El DocumentNode \<Longrightarrow> \<not> inclusive_ancestor d n p \<Longrightarrow>
     childNodes (snd (appendChild p n d)) e =
       (if e = p then childNodes (detach n d) p @ [n] else childNodes (detach n d) e)"
  by (simp add: appendChild_def returns_def Let_def)

lemma appendChild_refused:
  "n = El DocumentNode \<or> inclusive_ancestor d n p \<Longrightarrow>
     appendChild p n d = (Some HierarchyRequestError, d)"
  by (auto simp: appendChild_def throw_def)

lemma removeChild_parent:
  "parentNode d n = Some p \<Longrightarrow> removeChild p n d = (None, detach n d)"
  by (simp add: removeChild_def returns_def)

lemma map_of_filter_keys:
  "map_of (filter (\<lambda>(n, p). n \<notin> S) ps) k = (if k \<in> S then None else map_of ps k)"
  by (induction ps) auto

lemma parentNode_clear_innerHTML:
  "parentNode (clear_innerHTML e d) n =
     (if n \<in> set (childNodes d e) then None else parentNode d n)"
  by (simp add: clear_innerHTML_def parentNode_def map_of_filter_keys)

section \<open>removeFromDom\<close>

lemma removeFromDom_attached:
  assumes "parentNode (doc s) (El Overlay) = Some p" "parentNode (doc s) (El Dialog) = Some q"
  shows "removeFromDom s = (None, s\<lparr>doc := detach (El Dialog) (detach (El Overlay) (doc s))\<rparr>)"
  using assms
  by (simp add: removeFromDom_def and_then_def on_doc_def removeChild_parent parentNode_detach)

lemma removeFromDom_no_overlay_parent:
  "parentNode (doc s) (El Overlay) = None \<Longrightarrow> removeFromDom s = (Some TypeError, s)"
  by (simp add: removeFromDom_def and_then_def throw_def)

lemma removeFromDom_no_dialog_parent:
  "parentNode (doc s) (El Overlay) = Some p \<Longrightarrow> parentNode (doc s) (El Dialog) = None \<Longrightarrow>
     removeFromDom s = (Some TypeError, s\<lparr>doc := detach (El Overlay) (doc s)\<rparr>)"
  by (simp add: removeFromDom_def and_then_def on_doc_def throw_def removeChild_parent
      parentNode_detach)

lemma fst_removeFromDom:
  "fst (removeFromDom s) =
     (if attached s Overlay \<and> attached s Dialog then None else Some TypeError)"
proof (cases "parentNode (doc s) (El Overlay)")
  case None
  then show ?thesis by (simp add: removeFromDom_no_overlay_parent attached_def)
next
  case (Some p)
  then show ?thesis
    by (cases "parentNode (doc s) (El Dialog)")
      (simp_all add: removeFromDom_no_dialog_parent removeFromDom_attached attached_def)
qed

lemma attached_fire_at [simp]: "attached (fire_at r s) e = attached s e"
  by (simp add: attached_def fire_at_def)

lemma fst_onModalClose:
  "fst (onModalClose s) =
     (if attached s Overlay \<and> attached s Dialog then None else Some TypeError)"
proof -
  define s1 where "s1 = (case m_modalClose s of Some r \<Rightarrow> fire_at r s | None \<Rightarrow> s)"
  have a: "attached s1 e = attached s e" for e
    by (simp add: s1_def split: option.splits)
  have "fst (onModalClose s) = fst (removeFromDom s1)"
    by (cases "removeFromDom s1"; cases "fst (removeFromDom s1)")
      (simp_all add: onModalClose_def s1_def [symmetric] and_then_def returns_def)
  then show ?thesis by (simp add: fst_removeFromDom a)
qed

lemma fst_toggleTransitionend_open:
  "m_isOpen s \<Longrightarrow>
     fst (toggleTransitionend s) =
       (if attached s Overlay \<and> attached s Dialog then None else Some TypeError)"
proof -
  assume o: "m_isOpen s"
  define s1 where "s1 = s\<lparr>listeners := removeEventListener (Target Dialog)
      (event_type (m_transitionend s)) ToggleTransitionend (listeners s)\<rparr>"
  have a: "attached s1 e = attached s e" for e
    by (simp add: s1_def attached_def)
  have "fst (toggleTransitionend s) = fst (onModalClose s1)"
    using o
    by (cases "onModalClose s1"; cases "fst (onModalClose s1)")
      (simp_all add: toggleTransitionend_def s1_def [symmetric] and_then_def returns_def)
  then show ?thesis by (simp add: fst_onModalClose a)
qed

lemma parentNode_set_className [simp]: "parentNode (set_className e c d) n = parentNode d n"
  by (simp add: set_className_def parentNode_def)

lemma className_set_className:
  "className (set_className e c d) e' = (if e' = e then c else className d e')"
  by (simp add: set_className_def)

lemma childNodes_set_className [simp]: "childNodes (set_className e c d) = childNodes d"
  by (simp add: set_className_def)

lemma text_nodes_set_className [simp]: "text_nodes (set_className e c d) = text_nodes d"
  by (simp add: set_className_def)

section \<open>open and the completion handler, step by step\<close>

lemma open_modal_isOpen: "m_isOpen s \<Longrightarrow> open_modal s = (None, s)"
  by (simp add: open_modal_def returns_def)

lemma open_modal_no_body:
  "\<not> m_isOpen s \<Longrightarrow> document_body (doc s) = None \<Longrightarrow> open_modal s = (Some TypeError, s)"
  by (simp add: open_modal_def throw_def)

text \<open>The document after the two \<^verbatim>\<open>appendChild\<close> calls and the two class changes of \<^verbatim>\<open>open\<close>.\<close>

lemma open_modal_appended:
  assumes "\<not> m_isOpen s" and "document_body (doc s) = Some Body"
    and "\<not> inclusive_ancestor (doc s) (El Overlay) Body"
    and "\<not> inclusive_ancestor (snd (appendChild Body (El Overlay) (doc s))) (El Dialog) Body"
  shows "open_modal s =
     (None,
      s\<lparr>doc :=
          set_className Dialog (className (doc s) Dialog @ '' modal-open'')
            (set_className Overlay (className (doc s) Overlay @ '' modal-open'')
               (snd (appendChild Body (El Dialog)
                  (snd (appendChild Body (El Overlay) (doc s))))))\<rparr>)"
proof -
  define d1 where "d1 = snd (appendChild Body (El Overlay) (doc s))"
  define d2 where "d2 = snd (appendChild Body (El Dialog) d1)"
  have a1: "appendChild Body (El Overlay) (doc s) = (None, d1)"
    using assms(3) fst_appendChild [of Body "El Overlay" "doc s"]
    by (simp add: d1_def prod_eq_iff)
  have a2: "appendChild Body (El Dialog) d1 = (None, d2)"
    using assms(4) fst_appendChild [of Body "El Dialog" d1]
    by (simp add: d2_def d1_def prod_eq_iff)
  have c: "className d2 = className (doc s)"
    by (simp add: d2_def d1_def)
  have "open_modal s =
     (None, s\<lparr>doc := set_className Dialog (className (doc s) Dialog @ '' modal-open'')
            (set_className Overlay (className (doc s) Overlay @ '' modal-open'') d2)\<rparr>)"
    using assms(1,2)
    by (simp add: open_modal_def and_then_def on_doc_def a1 a2 returns_def Let_def
        className_set_className c)
  then show ?thesis by (simp add: d2_def d1_def)
qed

lemma open_modal_effect:
  assumes "\<not> m_isOpen s" and "document_body (doc s) \<noteq> None"
  shows "fst (open_modal s) = None"
    and "snd (open_modal s) = s\<lparr>doc := doc (snd (open_modal s))\<rparr>"
    and "parentNode (doc (snd (open_modal s))) n =
           (if n = El Overlay \<or> n = El Dialog then Some Body else parentNode (doc s) n)"
    and "className (doc (snd (open_modal s))) e =
           (if e = Overlay \<or> e = Dialog then className (doc s) e @ '' modal-open''
            else className (doc s) e)"
    and "text_nodes (doc (snd (open_modal s))) = text_nodes (doc s)"
    and "document_body (doc (snd (open_modal s))) = document_body (doc s)"
proof -
  from assms(2) have b: "document_body (doc s) = Some Body"
    by (auto simp: document_body_iff)
  have i1: "\<not> inclusive_ancestor (doc s) (El Overlay) Body"
    using b by (simp add: inclusive_ancestor_body)
  have p1: "parentNode (snd (appendChild Body (El Overlay) (doc s))) m =
      (if m = El Overlay then Some Body else parentNode (doc s) m)" for m
    using i1 by (simp add: parentNode_appendChild)
  have "document_body (snd (appendChild Body (El Overlay) (doc s))) = Some Body"
    using b by (simp add: document_body_iff p1)
  then have i2:
    "\<not> inclusive_ancestor (snd (appendChild Body (El Overlay) (doc s))) (El Dialog) Body"
    by (simp add: inclusive_ancestor_body)
  note eq = open_modal_appended [OF assms(1) b i1 i2]
  show "fst (open_modal s) = None" by (simp add: eq)
  show "snd (open_modal s) = s\<lparr>doc := doc (snd (open_modal s))\<rparr>" by (simp add: eq)
  show p: "parentNode (doc (snd (open_modal s))) n =
           (if n = El Overlay \<or> n = El Dialog then Some Body else parentNode (doc s) n)" for n
    using i2 by (simp add: eq parentNode_appendChild p1)
  show "className (doc (snd (open_modal s))) e =
           (if e = Overlay \<or> e = Dialog then className (doc s) e @ '' modal-open''
            else className (doc s) e)"
    by (simp add: eq className_set_className)
  show "text_nodes (doc (snd (open_modal s))) = text_nodes (doc s)"
    by (simp add: eq)
  show "document_body (doc (snd (open_modal s))) = document_body (doc s)"
    by (rule document_body_cong) (simp_all add: p)
qed

lemma open_modal_attaches:
  assumes "\<not> m_isOpen s" and "fst (open_modal s) = None"
  shows "attached (snd (open_modal s)) Overlay \<and> attached (snd (open_modal s)) Dialog"
proof -
  have "document_body (doc s) \<noteq> None"
    using assms by (cases "document_body (doc s)") (simp_all add: open_modal_no_body)
  then show ?thesis
    using assms(1) by (simp add: attached_def open_modal_effect(3))
qed

lemma toggleTransitionend_closed:
  "\<not> m_isOpen s \<Longrightarrow>
     toggleTransitionend s =
       (None,
        s\<lparr>listeners := removeEventListener (Target Dialog) (event_type (m_transitionend s))
                         ToggleTransitionend (listeners s),
          heap := (case m_modalOpen s of
                     Some r \<Rightarrow> (heap s)(r := fire (heap s r)) | None \<Rightarrow> heap s),
          m_isOpen := True,
          timers := timers s @ [(50, ReAttach)]\<rparr>)"
  by (simp add: toggleTransitionend_def onModalOpen_def and_then_def returns_def fire_at_def
      setTimeout_def split: option.splits)

lemma toggleTransitionend_open_attached:
  assumes "m_isOpen s"
    and "parentNode (doc s) (El Overlay) = Some p" and "parentNode (doc s) (El Dialog) = Some q"
  shows "toggleTransitionend s =
       (None,
        s\<lparr>listeners := removeEventListener (Target Dialog) (event_type (m_transitionend s))
                         ToggleTransitionend (listeners s),
          heap := (case m_modalClose s of
                     Some r \<Rightarrow> (heap s)(r := fire (heap s r)) | None \<Rightarrow> heap s),
          doc := detach (El Dialog) (detach (El Overlay) (doc s)),
          m_isOpen := False,
          timers := timers s @ [(50, ReAttach)]\<rparr>)"
proof (cases "m_modalClose s")
  case None
  then show ?thesis
    using assms
    by (simp add: toggleTransitionend_def onModalClose_def removeFromDom_attached [of _ p q]
        and_then_def returns_def setTimeout_def)
next
  case (Some r)
  then show ?thesis
    using assms
    by (simp add: toggleTransitionend_def onModalClose_def removeFromDom_attached [of _ p q]
        and_then_def returns_def setTimeout_def fire_at_def)
qed

lemma completion_signal_armed:
  "armed s \<Longrightarrow>
     completion_signal s =
       ((case fst (toggleTransitionend s) of None \<Rightarrow> [] | Some e \<Rightarrow> [e]),
        snd (toggleTransitionend s))"
  by (simp add: completion_signal_def dispatchEvent_def armed_def split: prod.splits)

lemma completion_signal_disarmed: "disarmed s \<Longrightarrow> completion_signal s = ([], s)"
  by (simp add: completion_signal_def dispatchEvent_def disarmed_def)

lemma handlers_for_removeEventListener:
  "handlers_for t ty (removeEventListener t ty h ls) = removeAll h (handlers_for t ty ls)"
  by (induction ls) (auto simp: handlers_for_def removeEventListener_def)

lemma handlers_for_addEventListener:
  "handlers_for t ty (addEventListener t ty h ls) =
     (if h \<in> set (handlers_for t ty ls) then handlers_for t ty ls
      else handlers_for t ty ls @ [h])"
  by (force simp: handlers_for_def addEventListener_def)

section \<open>The scenarios, evaluated\<close>

lemma fresh_modal_parents:
  "parentNode (doc fresh_modal) n =
     (if n = El ContentSlot \<or> n = El CloseButton then Some Dialog
      else if n = El Body then Some Html
      else if n = El Html then Some DocumentNode else None)"
  by (simp add: parentNode_def fresh_modal_fields)

lemma fresh_modal_body: "document_body (doc fresh_modal) = Some Body"
  by (simp add: document_body_def fresh_modal_parents)

lemma fresh_modal_armed: "armed fresh_modal"
  by (simp add: armed_def handlers_for_def fresh_modal_fields event_type_def)

lemma never_attached_eq:
  "never_attached =
     fresh_modal\<lparr>m_isOpen := True\<rparr>"
  by (simp add: never_attached_def completion_signal_armed fresh_modal_armed
      toggleTransitionend_closed fresh_modal_fields elapse_def registry_defs)

lemma never_attached_fields:
  "m_isOpen never_attached" "armed never_attached"
  "\<not> attached never_attached Overlay" "\<not> attached never_attached Dialog"
  using fresh_modal_armed
  by (simp_all add: never_attached_eq armed_def attached_def fresh_modal_parents)

lemma toggleTransitionend_open_no_overlay:
  assumes "m_isOpen s" and "parentNode (doc s) (El Overlay) = None"
  shows "toggleTransitionend s =
       (Some TypeError,
        s\<lparr>listeners := removeEventListener (Target Dialog) (event_type (m_transitionend s))
                         ToggleTransitionend (listeners s),
          heap := (case m_modalClose s of
                     Some r \<Rightarrow> (heap s)(r := fire (heap s r)) | None \<Rightarrow> heap s)\<rparr>)"
proof (cases "m_modalClose s")
  case None
  then show ?thesis
    using assms
    by (simp add: toggleTransitionend_def onModalClose_def removeFromDom_no_overlay_parent
        and_then_def)
next
  case (Some r)
  then show ?thesis
    using assms
    by (simp add: toggleTransitionend_def onModalClose_def removeFromDom_no_overlay_parent
        and_then_def fire_at_def)
qed

section \<open>The close completion needs attached elements\<close>

text \<open>
  Claim C9.  \<^verbatim>\<open>removeFromDom\<close> calls \<^verbatim>\<open>removeChild\<close> on the parent of the overlay and on
  the parent of the dialog with no null check.  It returns normally just when both elements
  have a parent, and throws a \<^verbatim>\<open>TypeError\<close> otherwise; the same holds for \<^verbatim>\<open>onModalClose\<close>
  and for a completion signal processed while \<^verbatim>\<open>_isOpen\<close> is true.  After a call of
  \<^verbatim>\<open>open()\<close> that took effect both elements are attached.
\<close>

theorem removeFromDom_null_dereference:
  "fst (removeFromDom s) =
     (if attached s Overlay \<and> attached s Dialog then None else Some TypeError) \<and>
   fst (onModalClose s) =
     (if attached s Overlay \<and> attached s Dialog then None else Some TypeError) \<and>
   (m_isOpen s \<and> armed s \<longrightarrow>
      fst (completion_signal s) =
        (if attached s Overlay \<and> attached s Dialog then [] else [TypeError])) \<and>
   (\<not> m_isOpen s \<and> fst (open_modal s) = None \<longrightarrow>
      attached (snd (open_modal s)) Overlay \<and> attached (snd (open_modal s)) Dialog)"
proof -
  have "fst (completion_signal s) =
        (if attached s Overlay \<and> attached s Dialog then [] else [TypeError])"
    if "m_isOpen s" "armed s"
    using that by (simp add: completion_signal_armed fst_toggleTransitionend_open)
  moreover have "attached (snd (open_modal s)) Overlay \<and> attached (snd (open_modal s)) Dialog"
    if "\<not> m_isOpen s" "fst (open_modal s) = None"
    using that by (rule open_modal_attaches)
  ultimately show ?thesis
    using fst_removeFromDom [of s] fst_onModalClose [of s] by blast
qed

lemma fresh_modal_opened:
  "fst (open_modal fresh_modal) = None"
  "attached (snd (open_modal fresh_modal)) Overlay"
  "attached (snd (open_modal fresh_modal)) Dialog"
  by (simp_all add: open_modal_effect(1,3) fresh_modal_fields fresh_modal_body attached_def)

theorem removeFromDom_null_dereference_witness:
  "m_isOpen never_attached \<and> armed never_attached \<and>
   \<not> attached never_attached Overlay \<and> \<not> attached never_attached Dialog \<and>
   fst (removeFromDom never_attached) = Some TypeError \<and>
   fst (completion_signal never_attached) = [TypeError] \<and>
   \<not> m_isOpen fresh_modal \<and> fst (open_modal fresh_modal) = None \<and>
   attached (snd (open_modal fresh_modal)) Overlay \<and>
   attached (snd (open_modal fresh_modal)) Dialog \<and>
   fst (removeFromDom (snd (open_modal fresh_modal))) = None"
  using removeFromDom_null_dereference [of never_attached]
    removeFromDom_null_dereference [of fresh_modal]
    removeFromDom_null_dereference [of "snd (open_modal fresh_modal)"]
  by (simp add: never_attached_fields fresh_modal_fields fresh_modal_opened)

section \<open>The direction of a completion\<close>

text \<open>
  Claim C1 as stated fails.  A fresh widget that receives a completion signal (with no call of
  \<^verbatim>\<open>open()\<close>) and then waits 50 ms has \<^verbatim>\<open>_isOpen\<close> true and the listener attached, while
  overlay and dialog have no parent.  The next completion signal is processed, but it is answered
  with a \<^verbatim>\<open>TypeError\<close> and \<^verbatim>\<open>_isOpen\<close> stays true.
\<close>

theorem completion_direction_counterexample:
  "m_isOpen never_attached \<and> armed never_attached \<and>
   fst (completion_signal never_attached) = [TypeError] \<and>
   m_isOpen (snd (completion_signal never_attached))"
proof -
  have "parentNode (doc never_attached) (El Overlay) = None"
    using never_attached_fields(3) by (simp add: attached_def)
  then show ?thesis
    by (simp add: never_attached_fields completion_signal_armed
        toggleTransitionend_open_no_overlay)
qed

lemma open_modal_frame: "snd (open_modal s) = s\<lparr>doc := doc (snd (open_modal s))\<rparr>"
  by (simp add: open_modal_def and_then_def on_doc_def returns_def throw_def Let_def
      split: prod.splits option.splits)

lemma open_modal_keeps:
  "listeners (snd (open_modal s)) = listeners s"
  "timers (snd (open_modal s)) = timers s"
  "m_isOpen (snd (open_modal s)) = m_isOpen s"
  "m_modalOpen (snd (open_modal s)) = m_modalOpen s"
  "m_modalClose (snd (open_modal s)) = m_modalClose s"
  "m_transitionend (snd (open_modal s)) = m_transitionend s"
  "m_closeButton (snd (open_modal s)) = m_closeButton s"
  "m_settings (snd (open_modal s)) = m_settings s"
  "heap (snd (open_modal s)) = heap s"
  "allocated (snd (open_modal s)) = allocated s"
  by (subst open_modal_frame, simp)+

lemma armed_open_modal [simp]: "armed (snd (open_modal s)) = armed s"
  by (simp add: armed_def open_modal_keeps)

lemma elapse_none: "timers s = [] \<Longrightarrow> elapse ms s = s"
  by (cases s) (simp add: elapse_def)

lemma elapse_single_due:
  "timers s = [(t, cb)] \<Longrightarrow> t \<le> ms \<Longrightarrow> elapse ms s = run_callback cb (s\<lparr>timers := []\<rparr>)"
  by (simp add: elapse_def)

lemma elapse_single_pending:
  "timers s = [(t, cb)] \<Longrightarrow> \<not> t \<le> ms \<Longrightarrow> elapse ms s = s\<lparr>timers := [(t - ms, cb)]\<rparr>"
  by (simp add: elapse_def)

lemma attached_updates [simp]:
  "attached (s\<lparr>listeners := ls\<rparr>) = attached s"
  "attached (s\<lparr>timers := ts\<rparr>) = attached s"
  "attached (s\<lparr>heap := h\<rparr>) = attached s"
  "attached (s\<lparr>allocated := k\<rparr>) = attached s"
  "attached (s\<lparr>m_isOpen := b\<rparr>) = attached s"
  "attached (s\<lparr>m_modalOpen := r\<rparr>) = attached s"
  "attached (s\<lparr>m_modalClose := r\<rparr>) = attached s"
  by (simp_all add: attached_def fun_eq_iff)

lemma armed_updates [simp]:
  "armed (s\<lparr>doc := d\<rparr>) = armed s"
  "armed (s\<lparr>timers := ts\<rparr>) = armed s"
  "armed (s\<lparr>heap := h\<rparr>) = armed s"
  "armed (s\<lparr>allocated := k\<rparr>) = armed s"
  "armed (s\<lparr>m_isOpen := b\<rparr>) = armed s"
  "armed (s\<lparr>m_modalOpen := r\<rparr>) = armed s"
  "armed (s\<lparr>m_modalClose := r\<rparr>) = armed s"
  by (simp_all add: armed_def)

lemma disarmed_updates [simp]:
  "disarmed (s\<lparr>doc := d\<rparr>) = disarmed s"
  "disarmed (s\<lparr>timers := ts\<rparr>) = disarmed s"
  "disarmed (s\<lparr>heap := h\<rparr>) = disarmed s"
  "disarmed (s\<lparr>allocated := k\<rparr>) = disarmed s"
  "disarmed (s\<lparr>m_isOpen := b\<rparr>) = disarmed s"
  "disarmed (s\<lparr>m_modalOpen := r\<rparr>) = disarmed s"
  "disarmed (s\<lparr>m_modalClose := r\<rparr>) = disarmed s"
  by (simp_all add: disarmed_def)

lemma opened_modal_fields:
  "m_isOpen opened_modal" "disarmed opened_modal"
  "attached opened_modal Overlay" "attached opened_modal Dialog"
  "className (doc opened_modal) Overlay = ''pl-modal-overlay modal-open''"
  "className (doc opened_modal) Dialog = ''pl-modal  modal-open''"
  "timers opened_modal = [(50, ReAttach)]"
  "m_transitionend opened_modal = Some ''transitionend''"
  "listeners opened_modal =
     [(Document, ''keydown'', EscKeyHandler), (Target CloseButton, ''click'', CloseClickHandler)]"
  "m_modalClose opened_modal = None"
  "heap opened_modal = (\<lambda>r. \<lparr>fired = 0\<rparr>)"
  using fresh_modal_opened
  by (simp_all add: opened_modal_def completion_signal_armed fresh_modal_armed
      toggleTransitionend_closed open_modal_keeps fresh_modal_fields fresh_modal_heap 
      open_modal_effect(4) fresh_modal_body
      removeEventListener_def event_type_def disarmed_def handlers_for_def)

text \<open>
  Claim C1, amended.  A completion signal that finds the listener attached is processed
  according to the prior value of \<^verbatim>\<open>_isOpen\<close>.  If it was true and the overlay and the dialog
  both have a parent: the close channel, when it exists, is fired once, both elements are
  detached, and \<^verbatim>\<open>_isOpen\<close> becomes false.  If it was false: the open channel, when it exists,
  is fired once, \<^verbatim>\<open>_isOpen\<close> becomes true and the document is unchanged.  In both cases the
  handler returns normally.
\<close>

theorem completion_direction:
  "(armed s \<and> m_isOpen s \<and> attached s Overlay \<and> attached s Dialog \<longrightarrow>
      fst (completion_signal s) = [] \<and>
      heap (snd (completion_signal s)) =
        (case m_modalClose s of Some r \<Rightarrow> (heap s)(r := fire (heap s r)) | None \<Rightarrow> heap s) \<and>
      \<not> attached (snd (completion_signal s)) Overlay \<and>
      \<not> attached (snd (completion_signal s)) Dialog \<and>
      \<not> m_isOpen (snd (completion_signal s))) \<and>
   (armed s \<and> \<not> m_isOpen s \<longrightarrow>
      fst (completion_signal s) = [] \<and>
      heap (snd (completion_signal s)) =
        (case m_modalOpen s of Some r \<Rightarrow> (heap s)(r := fire (heap s r)) | None \<Rightarrow> heap s) \<and>
      doc (snd (completion_signal s)) = doc s \<and>
      m_isOpen (snd (completion_signal s)))"
proof -
  have "fst (completion_signal s) = [] \<and>
      heap (snd (completion_signal s)) =
        (case m_modalClose s of Some r \<Rightarrow> (heap s)(r := fire (heap s r)) | None \<Rightarrow> heap s) \<and>
      \<not> attached (snd (completion_signal s)) Overlay \<and>
      \<not> attached (snd (completion_signal s)) Dialog \<and>
      \<not> m_isOpen (snd (completion_signal s))"
    if a: "armed s" "m_isOpen s" "attached s Overlay" "attached s Dialog"
  proof -
    from a(3,4) obtain p q where
      "parentNode (doc s) (El Overlay) = Some p" "parentNode (doc s) (El Dialog) = Some q"
      by (auto simp: attached_def)
    then show ?thesis
      using a(1,2)
      by (simp add: completion_signal_armed toggleTransitionend_open_attached [of s p q]
          attached_def parentNode_detach)
  qed
  moreover have "fst (completion_signal s) = [] \<and>
      heap (snd (completion_signal s)) =
        (case m_modalOpen s of Some r \<Rightarrow> (heap s)(r := fire (heap s r)) | None \<Rightarrow> heap s) \<and>
      doc (snd (completion_signal s)) = doc s \<and>
      m_isOpen (snd (completion_signal s))"
    if "armed s" "\<not> m_isOpen s"
    using that by (simp add: completion_signal_armed toggleTransitionend_closed)
  ultimately show ?thesis by blast
qed

lemma rearmed_open_fields:
  "armed (elapse 50 opened_modal)" "m_isOpen (elapse 50 opened_modal)"
  "attached (elapse 50 opened_modal) Overlay" "attached (elapse 50 opened_modal) Dialog"
  "timers (elapse 50 opened_modal) = []"
  "doc (elapse 50 opened_modal) = doc opened_modal"
  using opened_modal_fields(1-4)
  by (simp_all add: elapse_single_due [of opened_modal 50 ReAttach] opened_modal_fields(7-9)
      armed_def handlers_for_def addEventListener_def event_type_def)

theorem completion_direction_witness:
  "armed fresh_modal \<and> \<not> m_isOpen fresh_modal \<and>
   fst (completion_signal fresh_modal) = [] \<and>
   m_isOpen (snd (completion_signal fresh_modal)) \<and>
   armed (snd (modalOpen fresh_modal)) \<and> \<not> m_isOpen (snd (modalOpen fresh_modal)) \<and>
   fired (heap (snd (completion_signal (snd (modalOpen fresh_modal)))) 0) = 1 \<and>
   armed (elapse 50 opened_modal) \<and> m_isOpen (elapse 50 opened_modal) \<and>
   attached (elapse 50 opened_modal) Overlay \<and> attached (elapse 50 opened_modal) Dialog \<and>
   fst (completion_signal (elapse 50 opened_modal)) = [] \<and>
   \<not> m_isOpen (snd (completion_signal (elapse 50 opened_modal))) \<and>
   \<not> attached (snd (completion_signal (elapse 50 opened_modal))) Overlay \<and>
   \<not> attached (snd (completion_signal (elapse 50 opened_modal))) Dialog"
  using completion_direction [of fresh_modal]
    completion_direction [of "snd (modalOpen fresh_modal)"]
    completion_direction [of "elapse 50 opened_modal"]
  by (simp add: fresh_modal_armed fresh_modal_fields fresh_modal_heap rearmed_open_fields
      modalOpen_first fire_def)

section \<open>Repeated calls of open\<close>

text \<open>
  Claim C2 as stated fails: \<^verbatim>\<open>_isOpen\<close> is set by the completion handler only, so a second call
  of \<^verbatim>\<open>open()\<close> before any completion signal is not stopped by the guard.  It appends the class
  a second time.
\<close>

theorem open_twice_counterexample:
  "\<not> m_isOpen (snd (open_modal fresh_modal)) \<and>
   className (doc (snd (open_modal fresh_modal))) Overlay = ''pl-modal-overlay modal-open'' \<and>
   className (doc (snd (open_modal (snd (open_modal fresh_modal))))) Overlay =
     ''pl-modal-overlay modal-open modal-open'' \<and>
   className (doc (snd (open_modal (snd (open_modal fresh_modal))))) Dialog =
     ''pl-modal  modal-open modal-open'' \<and>
   snd (open_modal (snd (open_modal fresh_modal))) \<noteq> snd (open_modal fresh_modal)"
proof -
  define s1 where "s1 = snd (open_modal fresh_modal)"
  have 1: "\<not> m_isOpen s1" "document_body (doc s1) \<noteq> None"
    "className (doc s1) Overlay = ''pl-modal-overlay modal-open''"
    "className (doc s1) Dialog = ''pl-modal  modal-open''"
    by (simp_all add: s1_def open_modal_keeps open_modal_effect(4,6) fresh_modal_fields
        fresh_modal_body)
  have 2: "className (doc (snd (open_modal s1))) Overlay = ''pl-modal-overlay modal-open modal-open''"
    "className (doc (snd (open_modal s1))) Dialog = ''pl-modal  modal-open modal-open''"
    by (simp_all add: open_modal_effect(4) [OF 1(1,2)] 1(3,4))
  have "snd (open_modal s1) \<noteq> s1"
  proof
    assume "snd (open_modal s1) = s1"
    then have "className (doc (snd (open_modal s1))) Overlay = className (doc s1) Overlay"
      by simp
    then show False by (simp add: 1(3) 2(1))
  qed
  then show ?thesis using 1 2 by (simp add: s1_def)
qed

lemma repeat_open_isOpen: "m_isOpen s \<Longrightarrow> repeat_open n s = s"
  by (induction n) (simp_all add: open_modal_isOpen)

lemma repeat_open_no_body:
  "\<not> m_isOpen s \<Longrightarrow> document_body (doc s) = None \<Longrightarrow> repeat_open n s = s"
  by (induction n) (simp_all add: open_modal_no_body)

lemma repeat_open_effect:
  "\<not> m_isOpen s \<Longrightarrow> document_body (doc s) \<noteq> None \<Longrightarrow>
     \<not> m_isOpen (repeat_open n s) \<and>
     document_body (doc (repeat_open n s)) \<noteq> None \<and>
     className (doc (repeat_open n s)) Overlay =
       className (doc s) Overlay @ concat (replicate n '' modal-open'') \<and>
     className (doc (repeat_open n s)) Dialog =
       className (doc s) Dialog @ concat (replicate n '' modal-open'') \<and>
     (0 < n \<longrightarrow> parentNode (doc (repeat_open n s)) (El Overlay) = Some Body \<and>
        parentNode (doc (repeat_open n s)) (El Dialog) = Some Body)"
proof (induction n arbitrary: s)
  case 0
  then show ?case by simp
next
  case (Suc n)
  define s1 where "s1 = snd (open_modal s)"
  have 1: "\<not> m_isOpen s1" "document_body (doc s1) \<noteq> None"
    "parentNode (doc s1) (El Overlay) = Some Body" "parentNode (doc s1) (El Dialog) = Some Body"
    "className (doc s1) Overlay = className (doc s) Overlay @ '' modal-open''"
    "className (doc s1) Dialog = className (doc s) Dialog @ '' modal-open''"
    using Suc.prems by (simp_all add: s1_def open_modal_keeps open_modal_effect(3,4,6))
  show ?case
  proof (cases n)
    case 0
    then show ?thesis using 1 by (simp add: s1_def [symmetric])
  next
    case (Suc m)
    then show ?thesis
      using Suc.IH [OF 1(1,2)] 1(5,6) by (simp add: s1_def [symmetric])
  qed
qed

lemma body_inside_fields:
  "\<not> m_isOpen body_inside" "document_body (doc body_inside) = None"
  "parentNode (doc body_inside) (El Body) = Some ContentSlot"
  "\<not> attached body_inside Overlay" "\<not> attached body_inside Dialog"
proof -
  have c: "childNodes (doc fresh_modal) ContentSlot = []"
    by (simp add: fresh_modal_def blank_page_def constructor_defs completion_defs object_defs
        dom_defs registry_defs)
  have 1: "doc body_inside =
      snd (appendChild ContentSlot (El Body) (clear_innerHTML ContentSlot (doc fresh_modal)))"
    "m_isOpen body_inside = m_isOpen fresh_modal"
    by (simp_all add: body_inside_def setContent_def on_doc_def Let_def split: prod.splits)
  have p: "parentNode (clear_innerHTML ContentSlot (doc fresh_modal)) n =
      parentNode (doc fresh_modal) n" for n
    by (simp add: parentNode_clear_innerHTML c)
  have i: "\<not> inclusive_ancestor (clear_innerHTML ContentSlot (doc fresh_modal)) (El Body) ContentSlot"
    by (simp add: inclusive_ancestor_def clear_innerHTML_def c fresh_modal_fields parentNode_def)
  have q: "parentNode (doc body_inside) n =
      (if n = El Body then Some ContentSlot else parentNode (doc fresh_modal) n)" for n
    using i by (simp add: 1 parentNode_appendChild p)
  show "\<not> m_isOpen body_inside" by (simp add: 1 fresh_modal_fields)
  show "document_body (doc body_inside) = None" by (simp add: document_body_def q)
  show "parentNode (doc body_inside) (El Body) = Some ContentSlot" by (simp add: q)
  show "\<not> attached body_inside Overlay" "\<not> attached body_inside Dialog"
    by (simp_all add: attached_def q fresh_modal_parents)
qed

text \<open>
  Claim C2, amended.  A call of \<^verbatim>\<open>open()\<close> is a no-op that changes nothing when \<^verbatim>\<open>_isOpen\<close> is
  true, that is, once an open completion was processed.  While \<^verbatim>\<open>_isOpen\<close> is false (no
  completion signal since), every call in a sequence of \<^verbatim>\<open>open()\<close> calls does the same as the
  first.  When \<^verbatim>\<open>document.body\<close> is \<^verbatim>\<open>null\<close>, each call throws a \<^verbatim>\<open>TypeError\<close> and changes
  nothing.  Otherwise each call returns normally: \<open>n\<close> calls append the open class \<open>n\<close> times to
  the class names of overlay and dialog and leave both attached to the body.
\<close>

theorem open_guard:
  "(m_isOpen s \<longrightarrow> open_modal s = (None, s) \<and> repeat_open n s = s) \<and>
   (\<not> m_isOpen s \<and> document_body (doc s) = None \<longrightarrow>
      open_modal s = (Some TypeError, s) \<and> repeat_open n s = s) \<and>
   (\<not> m_isOpen s \<and> document_body (doc s) \<noteq> None \<longrightarrow>
      fst (open_modal s) = None \<and>
      fst (open_modal (repeat_open n s)) = None \<and>
      \<not> m_isOpen (repeat_open n s) \<and>
      className (doc (repeat_open n s)) Overlay =
        className (doc s) Overlay @ concat (replicate n '' modal-open'') \<and>
      className (doc (repeat_open n s)) Dialog =
        className (doc s) Dialog @ concat (replicate n '' modal-open'') \<and>
      (0 < n \<longrightarrow> parentNode (doc (repeat_open n s)) (El Overlay) = Some Body \<and>
         parentNode (doc (repeat_open n s)) (El Dialog) = Some Body))"
proof -
  have "fst (open_modal (repeat_open n s)) = None"
    if "\<not> m_isOpen s" "document_body (doc s) \<noteq> None"
    using repeat_open_effect [OF that, of n] by (simp add: open_modal_effect(1))
  then show ?thesis
    using repeat_open_effect [of s n] open_modal_effect(1) [of s]
    by (simp add: open_modal_isOpen repeat_open_isOpen open_modal_no_body repeat_open_no_body)
qed

theorem open_guard_witness:
  "m_isOpen opened_modal \<and> open_modal opened_modal = (None, opened_modal) \<and>
   \<not> m_isOpen body_inside \<and> document_body (doc body_inside) = None \<and>
   open_modal body_inside = (Some TypeError, body_inside) \<and>
   \<not> m_isOpen fresh_modal \<and> document_body (doc fresh_modal) = Some Body \<and>
   fst (open_modal fresh_modal) = None \<and>
   className (doc (repeat_open 3 fresh_modal)) Overlay =
     ''pl-modal-overlay modal-open modal-open modal-open'' \<and>
   parentNode (doc (repeat_open 3 fresh_modal)) (El Overlay) = Some Body"
  using open_guard [of opened_modal 1] open_guard [of body_inside 1]
    open_guard [of fresh_modal 3]
  by (simp add: opened_modal_fields body_inside_fields fresh_modal_fields fresh_modal_body
      numeral_3_eq_3)

section \<open>Content assignment\<close>

lemma setContent_omitted: "setContent None s = setContent (Some (StringArg [])) s"
  by (simp add: setContent_def)

lemma setContent_string:
  "setContent (Some (StringArg txt)) s =
     (None,
      s\<lparr>doc := snd (appendChild ContentSlot (Text (text_nodes (doc s)) txt)
                    ((clear_innerHTML ContentSlot (doc s))
                       \<lparr>text_nodes := Suc (text_nodes (doc s))\<rparr>))\<rparr>)"
proof -
  define d1 where
    "d1 = (clear_innerHTML ContentSlot (doc s))\<lparr>text_nodes := Suc (text_nodes (doc s))\<rparr>"
  have t: "text_nodes (clear_innerHTML ContentSlot (doc s)) = text_nodes (doc s)"
    by (simp add: clear_innerHTML_def)
  define d2 where "d2 = snd (appendChild ContentSlot (Text (text_nodes (doc s)) txt) d1)"
  have "fst (appendChild ContentSlot (Text (text_nodes (doc s)) txt) d1) = None"
    by (simp add: fst_appendChild)
  then have "appendChild ContentSlot (Text (text_nodes (doc s)) txt) d1 = (None, d2)"
    by (simp add: prod_eq_iff d2_def)
  then show ?thesis
    by (simp add: setContent_def Let_def createTextNode_def on_doc_def t d1_def [symmetric]
        d2_def [symmetric])
qed

lemma setContent_string_facts:
  "fst (setContent (Some (StringArg txt)) s) = None"
  "childNodes (doc (snd (setContent (Some (StringArg txt)) s))) ContentSlot =
     [Text (text_nodes (doc s)) txt]"
  "parentNode (doc (snd (setContent (Some (StringArg txt)) s))) n =
     (if n = Text (text_nodes (doc s)) txt then Some ContentSlot
      else if n \<in> set (childNodes (doc s) ContentSlot) then None
      else parentNode (doc s) n)"
  "text_nodes (doc (snd (setContent (Some (StringArg txt)) s))) = Suc (text_nodes (doc s))"
proof -
  define d1 where
    "d1 = (clear_innerHTML ContentSlot (doc s))\<lparr>text_nodes := Suc (text_nodes (doc s))\<rparr>"
  have c: "childNodes d1 ContentSlot = []"
    by (simp add: d1_def clear_innerHTML_def)
  have p: "parentNode d1 m =
      (if m \<in> set (childNodes (doc s) ContentSlot) then None else parentNode (doc s) m)" for m
    using parentNode_clear_innerHTML [of ContentSlot "doc s" m]
    by (auto simp: d1_def parentNode_def split: if_splits)
  note eq = setContent_string [of "txt" s, folded d1_def]
  show "fst (setContent (Some (StringArg txt)) s) = None" by (simp add: eq)
  show "childNodes (doc (snd (setContent (Some (StringArg txt)) s))) ContentSlot =
     [Text (text_nodes (doc s)) txt]"
    by (simp add: eq childNodes_appendChild childNodes_detach c)
  show "parentNode (doc (snd (setContent (Some (StringArg txt)) s))) n =
     (if n = Text (text_nodes (doc s)) txt then Some ContentSlot
      else if n \<in> set (childNodes (doc s) ContentSlot) then None
      else parentNode (doc s) n)"
    by (simp add: eq parentNode_appendChild p)
  show "text_nodes (doc (snd (setContent (Some (StringArg txt)) s))) = Suc (text_nodes (doc s))"
    by (simp add: eq d1_def)
qed

lemma setContent_node:
  "setContent (Some (NodeArg n)) s =
     (fst (appendChild ContentSlot n (clear_innerHTML ContentSlot (doc s))),
      s\<lparr>doc := snd (appendChild ContentSlot n (clear_innerHTML ContentSlot (doc s)))\<rparr>)"
  by (simp add: setContent_def Let_def on_doc_def split: prod.splits)

lemma setContent_node_facts:
  assumes "fst (setContent (Some (NodeArg n)) s) = None"
  shows "childNodes (doc (snd (setContent (Some (NodeArg n)) s))) ContentSlot = [n]"
    and "parentNode (doc (snd (setContent (Some (NodeArg n)) s))) n = Some ContentSlot"
proof -
  define d0 where "d0 = clear_innerHTML ContentSlot (doc s)"
  have c: "childNodes d0 ContentSlot = []"
    by (simp add: d0_def clear_innerHTML_def)
  have i: "n \<noteq> El DocumentNode" "\<not> inclusive_ancestor d0 n ContentSlot"
    using assms by (simp_all add: setContent_node fst_appendChild d0_def split: if_splits)
  show "childNodes (doc (snd (setContent (Some (NodeArg n)) s))) ContentSlot = [n]"
    using i by (simp add: setContent_node d0_def [symmetric] childNodes_appendChild
        childNodes_detach c)
  show "parentNode (doc (snd (setContent (Some (NodeArg n)) s))) n = Some ContentSlot"
    using i by (simp add: setContent_node d0_def [symmetric] parentNode_appendChild)
qed

lemma text_nodes_setContent_node:
  "text_nodes (doc (snd (setContent (Some (NodeArg n)) s))) = text_nodes (doc s)"
  by (simp add: setContent_node clear_innerHTML_def)

text \<open>
  Claim C5.  Whatever the content slot held before, \<^verbatim>\<open>setContent\<close> with a string returns
  normally and leaves exactly one child in the slot, a text node with that string; every other
  node that was a child of the slot has no parent afterwards.  After \<^verbatim>\<open>setContent\<close> with an
  element (which makes the element the only child, when it returns) a call with a string leaves
  only the text node in the slot, and the element has no parent.
\<close>

theorem setContent_replaces:
  "fst (setContent (Some (StringArg txt)) s) = None \<and>
   childNodes (doc (snd (setContent (Some (StringArg txt)) s))) ContentSlot =
     [Text (text_nodes (doc s)) txt] \<and>
   (\<forall>n \<in> set (childNodes (doc s) ContentSlot).
      n \<noteq> Text (text_nodes (doc s)) txt \<longrightarrow>
      parentNode (doc (snd (setContent (Some (StringArg txt)) s))) n = None) \<and>
   fst (setContent (Some (StringArg txt)) (snd (setContent (Some (NodeArg (El e))) s))) = None \<and>
   childNodes
     (doc (snd (setContent (Some (StringArg txt)) (snd (setContent (Some (NodeArg (El e))) s)))))
     ContentSlot = [Text (text_nodes (doc s)) txt] \<and>
   (fst (setContent (Some (NodeArg (El e))) s) = None \<longrightarrow>
      childNodes (doc (snd (setContent (Some (NodeArg (El e))) s))) ContentSlot = [El e] \<and>
      parentNode
        (doc (snd (setContent (Some (StringArg txt)) (snd (setContent (Some (NodeArg (El e))) s)))))
        (El e) = None)"
  by (simp add: setContent_string_facts setContent_node_facts text_nodes_setContent_node)

lemma fresh_modal_slot: "childNodes (doc fresh_modal) ContentSlot = []"
  by (simp add: fresh_modal_def blank_page_def constructor_defs completion_defs object_defs
      dom_defs registry_defs)

lemma fresh_modal_setContent_element:
  "fst (setContent (Some (NodeArg (El (Ext 0)))) fresh_modal) = None"
  by (simp add: setContent_node fst_appendChild inclusive_ancestor_def clear_innerHTML_def
      fresh_modal_fields fresh_modal_slot parentNode_def)

theorem setContent_replaces_witness:
  "fst (setContent (Some (NodeArg (El (Ext 0)))) fresh_modal) = None \<and>
   childNodes (doc (snd (setContent (Some (NodeArg (El (Ext 0)))) fresh_modal))) ContentSlot =
     [El (Ext 0)] \<and>
   El (Ext 0) \<noteq> Text 0 ''hello'' \<and>
   childNodes
     (doc (snd (setContent (Some (StringArg ''hello''))
                 (snd (setContent (Some (NodeArg (El (Ext 0)))) fresh_modal)))))
     ContentSlot = [Text 0 ''hello''] \<and>
   parentNode
     (doc (snd (setContent (Some (StringArg ''hello''))
                 (snd (setContent (Some (NodeArg (El (Ext 0)))) fresh_modal)))))
     (El (Ext 0)) = None"
  using setContent_replaces [of "''hello''" fresh_modal "Ext 0"]
    setContent_replaces [of "''hello''" "snd (setContent (Some (NodeArg (El (Ext 0)))) fresh_modal)"
      "Ext 0"]
  by (simp add: fresh_modal_setContent_element fresh_modal_fields)

section \<open>close\<close>

lemma close_closed: "\<not> m_isOpen s \<Longrightarrow> close s = (None, s)"
  by (simp add: close_def returns_def)

lemma close_open:
  "m_isOpen s \<Longrightarrow>
     close s =
       (None,
        s\<lparr>doc := set_className Dialog (replace_modal_open (className (doc s) Dialog))
                   (set_className Overlay (replace_modal_open (className (doc s) Overlay))
                      (doc s))\<rparr>)"
  by (simp add: close_def returns_def Let_def className_set_className)

lemma close_frame: "snd (close s) = s\<lparr>doc := doc (snd (close s))\<rparr>"
  by (cases "m_isOpen s") (simp_all add: close_open close_closed)

lemma close_keeps:
  "listeners (snd (close s)) = listeners s"
  "timers (snd (close s)) = timers s"
  "m_isOpen (snd (close s)) = m_isOpen s"
  "m_modalOpen (snd (close s)) = m_modalOpen s"
  "m_modalClose (snd (close s)) = m_modalClose s"
  "m_transitionend (snd (close s)) = m_transitionend s"
  "m_closeButton (snd (close s)) = m_closeButton s"
  "m_settings (snd (close s)) = m_settings s"
  "heap (snd (close s)) = heap s"
  "allocated (snd (close s)) = allocated s"
  by (subst close_frame, simp)+

lemma close_document:
  "fst (close s) = None"
  "parents (doc (snd (close s))) = parents (doc s)"
  "childNodes (doc (snd (close s))) = childNodes (doc s)"
  "text_nodes (doc (snd (close s))) = text_nodes (doc s)"
  "className (doc (snd (close s))) e =
     (if m_isOpen s \<and> (e = Overlay \<or> e = Dialog) then replace_modal_open (className (doc s) e)
      else className (doc s) e)"
  by (cases "m_isOpen s"; simp add: close_open close_closed set_className_def)+

subsection \<open>What the replacement does to a class name that ends in the open class\<close>

lemma dropWhile_space_open: "dropWhile is_space '' modal-open'' = ''modal-open''"
  by (simp add: is_space_def)

lemma not_occurs_open_suffix: "\<not> occurs_open (xs @ ys) \<Longrightarrow> \<not> occurs_open ys"
  by (induction xs) auto

lemma occurs_open_prefix: "occurs_open xs \<Longrightarrow> occurs_open (xs @ ys)"
proof (induction xs)
  case Nil
  then show ?case by simp
next
  case (Cons c cs)
  show ?case
  proof (cases "take 10 (c # cs) = ''modal-open''")
    case True
    then have "length (take 10 (c # cs)) = 10" by simp
    then have "10 \<le> length (c # cs)" by (simp add: min_def split: if_splits)
    then have "take 10 ((c # cs) @ ys) = take 10 (c # cs)" by simp
    with True show ?thesis by simp
  next
    case False
    with Cons.prems have "occurs_open cs"
      by (simp only: occurs_open.simps) blast
    then have "occurs_open (cs @ ys)" by (rule Cons.IH)
    then show ?thesis
      unfolding append_Cons occurs_open.simps by (rule disjI2)
  qed
qed

text \<open>No match can begin inside a string without an occurrence, whatever follows the space.\<close>

lemma no_match_inside:
  assumes "\<not> occurs_open (c # cs)"
  shows "take 10 ((c # cs) @ '' modal-open'') \<noteq> ''modal-open''"
proof (cases "10 \<le> length (c # cs)")
  case True
  then have "take 10 ((c # cs) @ '' modal-open'') = take 10 (c # cs)" by simp
  with assms show ?thesis by simp
next
  case False
  then obtain k where k: "10 - length (c # cs) = Suc k"
    by (cases "10 - length (c # cs)") auto
  have "take (10 - length (c # cs)) '' modal-open'' = CHR '' '' # take k ''modal-open''"
    unfolding k by simp
  moreover have "take 10 ((c # cs) @ '' modal-open'') =
      (c # cs) @ take (10 - length (c # cs)) ('' modal-open'')"
    using False by (simp only: take_append take_all not_le less_imp_le)
  ultimately have "take 10 ((c # cs) @ '' modal-open'') =
      (c # cs) @ CHR '' '' # take k ''modal-open''"
    by (simp only:)
  then have "CHR '' '' \<in> set (take 10 ((c # cs) @ '' modal-open''))"
    by (metis in_set_conv_decomp)
  moreover have "CHR '' '' \<notin> set ''modal-open''" by simp
  ultimately show ?thesis by metis
qed

lemma trim_right_Cons:
  "trim_right (c # cs) = (if \<forall>x \<in> set (c # cs). is_space x then [] else c # trim_right cs)"
proof (cases "\<forall>x \<in> set cs. is_space x")
  case True
  then have "dropWhile is_space (rev cs @ [c]) = dropWhile is_space [c]"
    by (intro dropWhile_append2) simp
  moreover have "dropWhile is_space (rev cs) = []" using True by simp
  ultimately show ?thesis using True by (simp add: trim_right_def)
next
  case False
  then obtain x where "x \<in> set (rev cs)" "\<not> is_space x" by auto
  then have "dropWhile is_space (rev cs @ [c]) = dropWhile is_space (rev cs) @ [c]"
    by (rule dropWhile_append1)
  then show ?thesis using False by (auto simp: trim_right_def)
qed

lemma replace_appended_open:
  "\<not> occurs_open base \<Longrightarrow> replace_modal_open (base @ '' modal-open'') = trim_right base"
proof (induction base)
  case Nil
  then show ?case by (simp add: trim_right_def dropWhile_space_open del: dropWhile.simps)
next
  case (Cons c cs)
  then have ih: "replace_modal_open (cs @ '' modal-open'') = trim_right cs" by simp
  show ?case
  proof (cases "\<forall>x \<in> set (c # cs). is_space x")
    case True
    then have "dropWhile is_space ((c # cs) @ '' modal-open'') = ''modal-open''"
      using dropWhile_append2 [of "c # cs" is_space "'' modal-open''"] dropWhile_space_open
      by simp
    then have "replace_modal_open ((c # cs) @ '' modal-open'') = []"
      by (simp del: dropWhile.simps)
    then show ?thesis using True by (simp add: trim_right_Cons)
  next
    case False
    then obtain x where x: "x \<in> set (c # cs)" "\<not> is_space x" by auto
    define r where "r = dropWhile is_space (c # cs)"
    have d: "dropWhile is_space ((c # cs) @ '' modal-open'') = r @ '' modal-open''"
      unfolding r_def using x by (rule dropWhile_append1)
    have "r \<noteq> []" using x by (auto simp: r_def dropWhile_eq_Nil_conv)
    then obtain y ys where r: "r = y # ys" by (cases r) auto
    have "c # cs = takeWhile is_space (c # cs) @ r" by (simp add: r_def)
    then have "\<not> occurs_open r"
      using Cons.prems not_occurs_open_suffix [of "takeWhile is_space (c # cs)" r] by metis
    then have "take 10 (r @ '' modal-open'') \<noteq> ''modal-open''"
      unfolding r by (rule no_match_inside)
    then have "replace_modal_open ((c # cs) @ '' modal-open'') =
        c # replace_modal_open (cs @ '' modal-open'')"
      using d by (simp del: dropWhile.simps)
    then show ?thesis using False ih by (simp add: trim_right_Cons)
  qed
qed

lemma trim_right_no_occurrence: "\<not> occurs_open base \<Longrightarrow> \<not> occurs_open (trim_right base)"
proof -
  have "base = trim_right base @ rev (takeWhile is_space (rev base))"
    by (metis rev_append rev_rev_ident takeWhile_dropWhile_id trim_right_def)
  then show "\<not> occurs_open base \<Longrightarrow> \<not> occurs_open (trim_right base)"
    using occurs_open_prefix [of "trim_right base" "rev (takeWhile is_space (rev base))"]
    by auto
qed

lemma repeat_open_keeps:
  "listeners (repeat_open n s) = listeners s"
  "timers (repeat_open n s) = timers s"
  "m_modalOpen (repeat_open n s) = m_modalOpen s"
  "m_modalClose (repeat_open n s) = m_modalClose s"
  "m_transitionend (repeat_open n s) = m_transitionend s"
  "heap (repeat_open n s) = heap s"
  by (induction n arbitrary: s; simp add: open_modal_keeps)+

lemma twice_opened_fields:
  "m_isOpen twice_opened"
  "className (doc twice_opened) Overlay = ''pl-modal-overlay modal-open modal-open''"
  "className (doc twice_opened) Dialog = ''pl-modal  modal-open modal-open''"
proof -
  have a: "armed (repeat_open 2 fresh_modal)"
    using fresh_modal_armed by (simp add: armed_def repeat_open_keeps)
  have "\<not> m_isOpen (repeat_open 2 fresh_modal) \<and>
     className (doc (repeat_open 2 fresh_modal)) Overlay =
       ''pl-modal-overlay modal-open modal-open'' \<and>
     className (doc (repeat_open 2 fresh_modal)) Dialog = ''pl-modal  modal-open modal-open''"
    using repeat_open_effect [of fresh_modal 2]
    by (simp add: fresh_modal_fields fresh_modal_body numeral_2_eq_2)
  then show "m_isOpen twice_opened"
    "className (doc twice_opened) Overlay = ''pl-modal-overlay modal-open modal-open''"
    "className (doc twice_opened) Dialog = ''pl-modal  modal-open modal-open''"
    using a by (simp_all add: twice_opened_def completion_signal_armed toggleTransitionend_closed)
qed

text \<open>
  The pattern has no word boundary: an occurrence inside a class name given in the settings is
  deleted instead of the class that \<^verbatim>\<open>open()\<close> added.
\<close>

lemma replace_inside_word:
  "replace_modal_open ''pl-modal my-modal-open modal-open'' = ''pl-modal my- modal-open''"
  by (simp add: is_space_def)

text \<open>
  Claim C4 as stated fails: the replacement deletes one match only.  After two calls of
  \<^verbatim>\<open>open()\<close> and the completion signal, \<^verbatim>\<open>close()\<close> leaves the open class on the overlay
  (and on the dialog).
\<close>

theorem close_twice_opened_counterexample:
  "m_isOpen twice_opened \<and>
   className (doc twice_opened) Overlay = ''pl-modal-overlay modal-open modal-open'' \<and>
   className (doc (snd (close twice_opened))) Overlay = ''pl-modal-overlay modal-open'' \<and>
   className (doc (snd (close twice_opened))) Dialog = ''pl-modal modal-open'' \<and>
   occurs_open (className (doc (snd (close twice_opened))) Overlay) \<and>
   occurs_open (className (doc (snd (close twice_opened))) Dialog)"
  by (simp add: twice_opened_fields close_document is_space_def)

text \<open>
  Claim C4, amended.  \<^verbatim>\<open>close()\<close> called while \<^verbatim>\<open>_isOpen\<close> is true returns normally and deletes
  the leftmost match of the pattern from the class names of the overlay and of the dialog.
  When such a class name is \<open>base\<close> followed by \<^verbatim>\<open>" modal-open"\<close> and \<^verbatim>\<open>modal-open\<close> does not occur
  in \<open>base\<close> (the open class was added once), what is left is \<open>base\<close> without its trailing white
  space, and the open class is gone.  Parent pointers and child lists are as before, so both
  elements stay attached, and \<^verbatim>\<open>_isOpen\<close> is unchanged.  Called while \<^verbatim>\<open>_isOpen\<close> is false,
  \<^verbatim>\<open>close()\<close> changes no state and raises no error.
\<close>

theorem close_effect:
  "fst (close s) = None \<and>
   parents (doc (snd (close s))) = parents (doc s) \<and>
   childNodes (doc (snd (close s))) = childNodes (doc s) \<and>
   attached (snd (close s)) e = attached s e \<and>
   m_isOpen (snd (close s)) = m_isOpen s \<and>
   (m_isOpen s \<longrightarrow>
      className (doc (snd (close s))) Overlay = replace_modal_open (className (doc s) Overlay) \<and>
      className (doc (snd (close s))) Dialog = replace_modal_open (className (doc s) Dialog)) \<and>
   (m_isOpen s \<and> (e = Overlay \<or> e = Dialog) \<and> className (doc s) e = base @ '' modal-open'' \<and>
    \<not> occurs_open base \<longrightarrow>
      className (doc (snd (close s))) e = trim_right base \<and>
      \<not> occurs_open (className (doc (snd (close s))) e)) \<and>
   (\<not> m_isOpen s \<longrightarrow> close s = (None, s))"
  by (auto simp: close_document close_keeps close_closed attached_def parentNode_def
      replace_appended_open trim_right_no_occurrence simp del: replace_modal_open.simps)

theorem close_effect_witness:
  "m_isOpen opened_modal \<and>
   className (doc opened_modal) Overlay = ''pl-modal-overlay'' @ '' modal-open'' \<and>
   \<not> occurs_open ''pl-modal-overlay'' \<and>
   className (doc (snd (close opened_modal))) Overlay = ''pl-modal-overlay'' \<and>
   className (doc opened_modal) Dialog = ''pl-modal '' @ '' modal-open'' \<and>
   \<not> occurs_open ''pl-modal '' \<and>
   className (doc (snd (close opened_modal))) Dialog = ''pl-modal'' \<and>
   attached (snd (close opened_modal)) Overlay \<and> attached (snd (close opened_modal)) Dialog \<and>
   \<not> m_isOpen fresh_modal \<and> close fresh_modal = (None, fresh_modal)"
  using close_effect [of opened_modal Overlay "''pl-modal-overlay''"]
    close_effect [of opened_modal Dialog "''pl-modal ''"]
    close_effect [of fresh_modal Overlay "[]"]
  by (simp add: opened_modal_fields fresh_modal_fields trim_right_def is_space_def)

section \<open>The debounce\<close>

lemma toggleTransitionend_open_no_dialog:
  assumes "m_isOpen s"
    and "parentNode (doc s) (El Overlay) = Some p" and "parentNode (doc s) (El Dialog) = None"
  shows "toggleTransitionend s =
       (Some TypeError,
        s\<lparr>listeners := removeEventListener (Target Dialog) (event_type (m_transitionend s))
                         ToggleTransitionend (listeners s),
          heap := (case m_modalClose s of
                     Some r \<Rightarrow> (heap s)(r := fire (heap s r)) | None \<Rightarrow> heap s),
          doc := detach (El Overlay) (doc s)\<rparr>)"
proof (cases "m_modalClose s")
  case None
  then show ?thesis
    using assms
    by (simp add: toggleTransitionend_def onModalClose_def
        removeFromDom_no_dialog_parent [of _ p] and_then_def)
next
  case (Some r)
  then show ?thesis
    using assms
    by (simp add: toggleTransitionend_def onModalClose_def
        removeFromDom_no_dialog_parent [of _ p] and_then_def fire_at_def)
qed

text \<open>What the handler does in every case.\<close>

lemma toggleTransitionend_facts:
  "listeners (snd (toggleTransitionend s)) =
     removeEventListener (Target Dialog) (event_type (m_transitionend s)) ToggleTransitionend
       (listeners s)"
  "heap (snd (toggleTransitionend s)) =
     (case completion_channel s of
        Some r \<Rightarrow> (heap s)(r := fire (heap s r)) | None \<Rightarrow> heap s)"
  "timers (snd (toggleTransitionend s)) =
     (if fst (toggleTransitionend s) = None then timers s @ [(50, ReAttach)] else timers s)"
  "m_isOpen (snd (toggleTransitionend s)) =
     (if fst (toggleTransitionend s) = None then \<not> m_isOpen s else m_isOpen s)"
  "m_transitionend (snd (toggleTransitionend s)) = m_transitionend s"
  "m_modalOpen (snd (toggleTransitionend s)) = m_modalOpen s"
  "m_modalClose (snd (toggleTransitionend s)) = m_modalClose s"
  "allocated (snd (toggleTransitionend s)) = allocated s"
proof -
  consider (closed) "\<not> m_isOpen s"
    | (both) p q where "m_isOpen s" "parentNode (doc s) (El Overlay) = Some p"
        "parentNode (doc s) (El Dialog) = Some q"
    | (no_dialog) p where "m_isOpen s" "parentNode (doc s) (El Overlay) = Some p"
        "parentNode (doc s) (El Dialog) = None"
    | (no_overlay) "m_isOpen s" "parentNode (doc s) (El Overlay) = None"
    by (cases "parentNode (doc s) (El Overlay)"; cases "parentNode (doc s) (El Dialog)") auto
  then have
    "listeners (snd (toggleTransitionend s)) =
       removeEventListener (Target Dialog) (event_type (m_transitionend s)) ToggleTransitionend
         (listeners s) \<and>
     heap (snd (toggleTransitionend s)) =
       (case completion_channel s of
          Some r \<Rightarrow> (heap s)(r := fire (heap s r)) | None \<Rightarrow> heap s) \<and>
     timers (snd (toggleTransitionend s)) =
       (if fst (toggleTransitionend s) = None then timers s @ [(50, ReAttach)] else timers s) \<and>
     m_isOpen (snd (toggleTransitionend s)) =
       (if fst (toggleTransitionend s) = None then \<not> m_isOpen s else m_isOpen s) \<and>
     m_transitionend (snd (toggleTransitionend s)) = m_transitionend s \<and>
     m_modalOpen (snd (toggleTransitionend s)) = m_modalOpen s \<and>
     m_modalClose (snd (toggleTransitionend s)) = m_modalClose s \<and>
     allocated (snd (toggleTransitionend s)) = allocated s"
  proof cases
    case closed
    then show ?thesis by (simp add: toggleTransitionend_closed completion_channel_def)
  next
    case both
    then show ?thesis
      by (simp add: toggleTransitionend_open_attached [of s p q] completion_channel_def)
  next
    case no_dialog
    then show ?thesis
      by (simp add: toggleTransitionend_open_no_dialog [of s p] completion_channel_def)
  next
    case no_overlay
    then show ?thesis by (simp add: toggleTransitionend_open_no_overlay completion_channel_def)
  qed
  then show
    "listeners (snd (toggleTransitionend s)) =
       removeEventListener (Target Dialog) (event_type (m_transitionend s)) ToggleTransitionend
         (listeners s)"
    "heap (snd (toggleTransitionend s)) =
       (case completion_channel s of
          Some r \<Rightarrow> (heap s)(r := fire (heap s r)) | None \<Rightarrow> heap s)"
    "timers (snd (toggleTransitionend s)) =
       (if fst (toggleTransitionend s) = None then timers s @ [(50, ReAttach)] else timers s)"
    "m_isOpen (snd (toggleTransitionend s)) =
       (if fst (toggleTransitionend s) = None then \<not> m_isOpen s else m_isOpen s)"
    "m_transitionend (snd (toggleTransitionend s)) = m_transitionend s"
    "m_modalOpen (snd (toggleTransitionend s)) = m_modalOpen s"
    "m_modalClose (snd (toggleTransitionend s)) = m_modalClose s"
    "allocated (snd (toggleTransitionend s)) = allocated s"
    by simp_all
qed

lemma disarmed_after_toggle: "armed s \<Longrightarrow> disarmed (snd (toggleTransitionend s))"
  by (simp add: armed_def disarmed_def toggleTransitionend_facts handlers_for_removeEventListener)

lemma burst_quiet:
  "disarmed s \<Longrightarrow>
   timers s = [] \<or> (\<exists>r. timers s = [(r, ReAttach)] \<and> sum_list ds < r) \<Longrightarrow>
     m_isOpen (burst ds s) = m_isOpen s \<and> heap (burst ds s) = heap s \<and>
     doc (burst ds s) = doc s \<and> listeners (burst ds s) = listeners s \<and>
     disarmed (burst ds s)"
proof (induction ds arbitrary: s)
  case Nil
  then show ?case by simp
next
  case (Cons d ds)
  from Cons.prems(2) consider "timers s = []"
    | r where "timers s = [(r, ReAttach)]" "d + sum_list ds < r"
    by auto
  then show ?case
  proof cases
    case 1
    then have "snd (completion_signal (elapse d s)) = s"
      using Cons.prems(1) by (simp add: elapse_none completion_signal_disarmed)
    then show ?thesis
      using Cons.IH [of s] Cons.prems(1) 1 by simp
  next
    case 2
    define s' where "s' = s\<lparr>timers := [(r - d, ReAttach)]\<rparr>"
    have e: "elapse d s = s'"
      using 2 by (simp add: elapse_single_pending s'_def)
    have d': "disarmed s'" using Cons.prems(1) by (simp add: s'_def)
    then have "snd (completion_signal (elapse d s)) = s'"
      by (simp add: e completion_signal_disarmed)
    moreover have "timers s' = [] \<or> (\<exists>r. timers s' = [(r, ReAttach)] \<and> sum_list ds < r)"
      using 2 by (simp add: s'_def)
    ultimately show ?thesis
      using Cons.IH [OF d'] by (simp add: s'_def)
  qed
qed

lemma rearm_after_toggle:
  assumes "armed s" and "timers s = []" and "fst (toggleTransitionend s) = None"
  shows "timers (snd (toggleTransitionend s)) = [(50, ReAttach)]"
    and "d < 50 \<Longrightarrow> disarmed (elapse d (snd (toggleTransitionend s)))"
    and "50 \<le> d \<Longrightarrow> armed (elapse d (snd (toggleTransitionend s)))"
proof -
  define s1 where "s1 = snd (toggleTransitionend s)"
  have t: "timers s1 = [(50, ReAttach)]"
    using assms(2,3) by (simp add: s1_def toggleTransitionend_facts)
  have dis: "disarmed s1"
    using assms(1) by (simp add: s1_def disarmed_after_toggle)
  show "timers (snd (toggleTransitionend s)) = [(50, ReAttach)]"
    using t by (simp add: s1_def)
  show "disarmed (elapse d (snd (toggleTransitionend s)))" if "d < 50"
    using that dis t by (simp add: s1_def [symmetric] elapse_single_pending)
  show "armed (elapse d (snd (toggleTransitionend s)))" if "50 \<le> d"
    using that dis t
    by (simp add: s1_def [symmetric] elapse_single_due armed_def disarmed_def
        handlers_for_addEventListener)
qed

section \<open>The constructor, step by step\<close>

lemma parentNode_createElement:
  "parentNode (createElement e d) n = (if n = El e then None else parentNode d n)"
  by (simp add: createElement_def parentNode_def delete_conv')

lemma className_createElement:
  "className (createElement e d) e' = (if e' = e then [] else className d e')"
  by (simp add: createElement_def)

lemma childNodes_createElement:
  "childNodes (createElement e d) e' = (if e' = e then [] else childNodes d e')"
  by (simp add: createElement_def)

lemma detach_orphan: "parentNode d n = None \<Longrightarrow> detach n d = d"
  by (simp add: detach_def)

lemma on_doc_appendChild:
  "n \<noteq> El DocumentNode \<Longrightarrow> \<not> inclusive_ancestor (doc s) n p \<Longrightarrow>
     on_doc (appendChild p n) s = (None, s\<lparr>doc := snd (appendChild p n (doc s))\<rparr>)"
  using fst_appendChild [of p n "doc s"] by (auto simp: on_doc_def split: prod.splits)

lemma buildOut_facts:
  "fst (buildOut s) = None"
  "m_closeButton (snd (buildOut s)) =
     (if truthy (get_prop (m_settings s) ''avoidClose'') then Some CloseButton
      else m_closeButton s)"
  "parentNode (doc (snd (buildOut s))) (El Overlay) = None"
  "parentNode (doc (snd (buildOut s))) (El Dialog) = None"
  "parentNode (doc (snd (buildOut s))) (El Body) = parentNode (doc s) (El Body)"
  "className (doc (snd (buildOut s))) Overlay = ''pl-modal-overlay''"
  "className (doc (snd (buildOut s))) Dialog =
     ''pl-modal'' @ '' '' @ toString (get_prop (m_settings s) ''className'')"
  "childNodes (doc (snd (buildOut s))) Dialog =
     (if truthy (get_prop (m_settings s) ''avoidClose'') then [El ContentSlot, El CloseButton]
      else [El ContentSlot])"
  "snd (buildOut s) =
     s\<lparr>doc := doc (snd (buildOut s)), m_closeButton := m_closeButton (snd (buildOut s))\<rparr>"
  "parentNode (doc (snd (buildOut s))) (El Html) = parentNode (doc s) (El Html)"
proof -
  define d3 where "d3 =
    set_className ContentSlot ''pl-modal-content''
      (createElement ContentSlot
         (set_className Dialog
            (''pl-modal'' @ '' '' @ toString (get_prop (m_settings s) ''className''))
            (createElement Dialog
               (set_className Overlay ''pl-modal-overlay'' (createElement Overlay (doc s))))))"
  define d4 where "d4 = snd (appendChild Dialog (El ContentSlot) d3)"
  define d5 where
    "d5 = set_className CloseButton ''pl-modal-close-button'' (createElement CloseButton d4)"
  define d6 where "d6 = snd (appendChild Dialog (El CloseButton) d5)"
  have p3: "parentNode d3 n =
      (if n = El ContentSlot \<or> n = El Dialog \<or> n = El Overlay then None
       else parentNode (doc s) n)" for n
    by (simp add: d3_def parentNode_createElement)
  have i3: "\<not> inclusive_ancestor d3 (El ContentSlot) Dialog"
    by (simp add: inclusive_ancestor_root p3)
  have p4: "parentNode d4 n = (if n = El ContentSlot then Some Dialog else parentNode d3 n)" for n
    using i3 by (simp add: d4_def parentNode_appendChild)
  have c3: "className d3 Overlay = ''pl-modal-overlay''"
    "className d3 Dialog =
       ''pl-modal'' @ '' '' @ toString (get_prop (m_settings s) ''className'')"
    "childNodes d3 Dialog = []"
    by (simp_all add: d3_def className_set_className className_createElement
        childNodes_createElement)
  have k4: "childNodes d4 Dialog = [El ContentSlot]"
    using i3 by (simp add: d4_def childNodes_appendChild detach_orphan p3 c3)
  have p5: "parentNode d5 n = (if n = El CloseButton then None else parentNode d4 n)" for n
    by (simp add: d5_def parentNode_createElement)
  have i5: "\<not> inclusive_ancestor d5 (El CloseButton) Dialog"
    by (simp add: inclusive_ancestor_root p5 p4 p3)
  have p6: "parentNode d6 n = (if n = El CloseButton then Some Dialog else parentNode d5 n)" for n
    using i5 by (simp add: d6_def parentNode_appendChild)
  have k5: "childNodes d5 Dialog = [El ContentSlot]"
    by (simp add: d5_def childNodes_createElement k4)
  have k6: "childNodes d6 Dialog = [El ContentSlot, El CloseButton]"
    using i5 by (simp add: d6_def childNodes_appendChild detach_orphan p5 k5)
  have c6: "className d6 e = (if e = CloseButton then ''pl-modal-close-button'' else className d4 e)"
    for e
    by (simp add: d6_def d5_def className_set_className className_createElement)
  have c4: "className d4 = className d3"
    by (simp add: d4_def)
  have eq: "buildOut s =
      (None, if truthy (get_prop (m_settings s) ''avoidClose'')
             then s\<lparr>doc := d6, m_closeButton := Some CloseButton\<rparr> else s\<lparr>doc := d4\<rparr>)"
    unfolding buildOut_def Let_def d3_def [symmetric]
    using i3 i5
    by (simp add: on_doc_appendChild and_then_def d4_def [symmetric] d5_def [symmetric]
        d6_def [symmetric] returns_def)
  show "fst (buildOut s) = None" by (simp add: eq)
  show "m_closeButton (snd (buildOut s)) =
     (if truthy (get_prop (m_settings s) ''avoidClose'') then Some CloseButton
      else m_closeButton s)"
    by (simp add: eq)
  show "parentNode (doc (snd (buildOut s))) (El Overlay) = None"
    by (simp add: eq p6 p5 p4 p3)
  show "parentNode (doc (snd (buildOut s))) (El Dialog) = None"
    by (simp add: eq p6 p5 p4 p3)
  show "parentNode (doc (snd (buildOut s))) (El Body) = parentNode (doc s) (El Body)"
    by (simp add: eq p6 p5 p4 p3)
  show "className (doc (snd (buildOut s))) Overlay = ''pl-modal-overlay''"
    by (simp add: eq c6 c4 c3)
  show "className (doc (snd (buildOut s))) Dialog =
     ''pl-modal'' @ '' '' @ toString (get_prop (m_settings s) ''className'')"
    by (simp add: eq c6 c4 c3)
  show "childNodes (doc (snd (buildOut s))) Dialog =
     (if truthy (get_prop (m_settings s) ''avoidClose'') then [El ContentSlot, El CloseButton]
      else [El ContentSlot])"
    by (simp add: eq k6 k4)
  show "snd (buildOut s) =
     s\<lparr>doc := doc (snd (buildOut s)), m_closeButton := m_closeButton (snd (buildOut s))\<rparr>"
    by (simp add: eq)
  show "parentNode (doc (snd (buildOut s))) (El Html) = parentNode (doc s) (El Html)"
    by (simp add: eq p6 p5 p4 p3)
qed

lemma buildOut_keeps:
  "listeners (snd (buildOut s)) = listeners s"
  "timers (snd (buildOut s)) = timers s"
  "m_isOpen (snd (buildOut s)) = m_isOpen s"
  "m_modalOpen (snd (buildOut s)) = m_modalOpen s"
  "m_modalClose (snd (buildOut s)) = m_modalClose s"
  "m_transitionend (snd (buildOut s)) = m_transitionend s"
  "heap (snd (buildOut s)) = heap s"
  "allocated (snd (buildOut s)) = allocated s"
  by (subst buildOut_facts(9), simp)+

lemma initializeEvents_eq:
  "initializeEvents s =
     (if truthy (get_prop (m_settings s) ''avoidClose'')
      then (case m_closeButton s of
              None \<Rightarrow>
                (Some TypeError,
                 s\<lparr>listeners := addEventListener Document ''keydown'' EscKeyHandler
                                   (listeners s)\<rparr>)
            | Some b \<Rightarrow>
                (None,
                 s\<lparr>listeners :=
                     addEventListener (Target Dialog) (event_type (m_transitionend s))
                       ToggleTransitionend
                       (addEventListener (Target b) ''click'' CloseClickHandler
                          (addEventListener Document ''keydown'' EscKeyHandler
                             (listeners s)))\<rparr>))
      else (None,
            s\<lparr>listeners := addEventListener (Target Dialog) (event_type (m_transitionend s))
                              ToggleTransitionend (listeners s)\<rparr>))"
  by (simp add: initializeEvents_def and_then_def returns_def throw_def Let_def
      split: option.splits)


lemma construct_facts:
  "fst (construct merged te page) = None"
  "listeners (snd (construct merged te page)) =
     (if truthy (get_prop merged ''avoidClose'')
      then [(Document, ''keydown'', EscKeyHandler),
            (Target CloseButton, ''click'', CloseClickHandler),
            (Target Dialog, event_type te, ToggleTransitionend)]
      else [(Target Dialog, event_type te, ToggleTransitionend)])"
  "timers (snd (construct merged te page)) = []"
  "m_transitionend (snd (construct merged te page)) = te"
  "m_isOpen (snd (construct merged te page)) = False"
  "m_closeButton (snd (construct merged te page)) =
     (if truthy (get_prop merged ''avoidClose'') then Some CloseButton else None)"
  "childNodes (doc (snd (construct merged te page))) Dialog =
     (if truthy (get_prop merged ''avoidClose'') then [El ContentSlot, El CloseButton]
      else [El ContentSlot])"
  "view (snd (construct merged te page)) =
     ((False, ''pl-modal-overlay'', ''pl-modal'' @ '' '' @ toString (get_prop merged ''className'')),
      (None, None, parentNode page (El Body), parentNode page (El Html)),
      (None, None, (\<lambda>r. \<lparr>fired = 0\<rparr>), 0),
      ([], te, [ToggleTransitionend]))"
proof -
  define s0 where "s0 =
    \<lparr>doc = page, listeners = [], timers = [], m_isOpen = False, m_modalClose = None,
     m_modalOpen = None,
     m_settings = merged,
     m_transitionend = te,
     m_closeButton = None,
     heap = (\<lambda>r. \<lparr>fired = 0\<rparr>), allocated = 0\<rparr>"
  define s1 where "s1 = snd (buildOut s0)"
  define b where "b = truthy (get_prop merged ''avoidClose'')"
  have st: "truthy (get_prop (m_settings s1) ''avoidClose'') = b"
    "m_settings s0 = merged"
    by (simp_all add: s1_def m_settings_buildOut s0_def b_def)
  have b1: "buildOut s0 = (None, s1)"
    using buildOut_facts(1) [of s0] by (simp add: s1_def prod_eq_iff)
  have k: "listeners s1 = []" "timers s1 = []" "m_isOpen s1 = False" "m_modalOpen s1 = None"
    "m_modalClose s1 = None" "m_transitionend s1 = te"
    "heap s1 = (\<lambda>r. \<lparr>fired = 0\<rparr>)" "allocated s1 = 0"
    "m_closeButton s1 = (if b then Some CloseButton else None)"
    by (simp_all add: s1_def buildOut_keeps buildOut_facts(2) st b_def [symmetric])
      (simp_all add: s0_def)
  have d: "parentNode (doc s1) (El Overlay) = None" "parentNode (doc s1) (El Dialog) = None"
    "parentNode (doc s1) (El Body) = parentNode page (El Body)"
    "parentNode (doc s1) (El Html) = parentNode page (El Html)"
    "className (doc s1) Overlay = ''pl-modal-overlay''"
    "className (doc s1) Dialog = ''pl-modal'' @ '' '' @ toString (get_prop merged ''className'')"
    "childNodes (doc s1) Dialog = (if b then [El ContentSlot, El CloseButton] else [El ContentSlot])"
    by (simp_all only: s1_def buildOut_facts(3-8,10) st b_def [symmetric]) (simp_all add: s0_def)
  have n: "construct merged te page = initializeEvents s1"
    by (simp add: construct_def s0_def [symmetric] b1 and_then_def)
  show "fst (construct merged te page) = None"
    by (simp add: n initializeEvents_eq st k)
  show "listeners (snd (construct merged te page)) =
     (if truthy (get_prop merged ''avoidClose'')
      then [(Document, ''keydown'', EscKeyHandler),
            (Target CloseButton, ''click'', CloseClickHandler),
            (Target Dialog, event_type te, ToggleTransitionend)]
      else [(Target Dialog, event_type te, ToggleTransitionend)])"
    unfolding b_def [symmetric]
    by (simp add: n initializeEvents_eq st k addEventListener_def)
  show "timers (snd (construct merged te page)) = []"
    by (simp add: n initializeEvents_eq st k)
  show "m_transitionend (snd (construct merged te page)) = te"
    by (simp add: n initializeEvents_eq st k)
  show "m_isOpen (snd (construct merged te page)) = False"
    by (simp add: n initializeEvents_eq st k)
  show "m_closeButton (snd (construct merged te page)) =
     (if truthy (get_prop merged ''avoidClose'') then Some CloseButton else None)"
    unfolding b_def [symmetric]
    by (simp add: n initializeEvents_eq st k)
  show "childNodes (doc (snd (construct merged te page))) Dialog =
     (if truthy (get_prop merged ''avoidClose'') then [El ContentSlot, El CloseButton]
      else [El ContentSlot])"
    unfolding b_def [symmetric]
    by (simp add: n initializeEvents_eq st k d)
  show "view (snd (construct merged te page)) =
     ((False, ''pl-modal-overlay'', ''pl-modal'' @ '' '' @ toString (get_prop merged ''className'')),
      (None, None, parentNode page (El Body), parentNode page (El Html)),
      (None, None, (\<lambda>r. \<lparr>fired = 0\<rparr>), 0),
      ([], te, [ToggleTransitionend]))"
    by (simp add: n initializeEvents_eq st k d view_def addEventListener_def handlers_for_def)
qed

lemma new_Modal_Inr:
  "extendsDefaults defaults (settings_or_empty settings) = (None, merged) \<Longrightarrow>
     new_Modal style settings page = Inr (snd (construct merged (transitionSelect style) page))"
  using construct_facts(1) [of merged "transitionSelect style" page]
  by (cases "construct merged (transitionSelect style) page") (auto simp: new_Modal_def)

lemma new_Modal_Inl:
  "extendsDefaults defaults (settings_or_empty settings) = (Some e, source) \<Longrightarrow>
     new_Modal style settings page = Inl (e, page, [])"
  by (simp add: new_Modal_def)

lemma new_Modal_InrD:
  assumes "new_Modal style settings page = Inr s"
  shows "extendsDefaults defaults (settings_or_empty settings) = (None, m_settings s)"
    and "s = snd (construct (m_settings s) (transitionSelect style) page)"
proof -
  obtain r merged where e: "extendsDefaults defaults (settings_or_empty settings) = (r, merged)"
    by (cases "extendsDefaults defaults (settings_or_empty settings)")
  have r: "r = None"
    using assms e by (cases r) (simp_all add: new_Modal_Inl)
  then have s: "s = snd (construct merged (transitionSelect style) page)"
    using assms e by (simp add: new_Modal_Inr)
  then have m: "m_settings s = merged"
    by (simp add: m_settings_construct)
  show "extendsDefaults defaults (settings_or_empty settings) = (None, m_settings s)"
    by (simp add: e r m)
  show "s = snd (construct (m_settings s) (transitionSelect style) page)"
    using s m by simp
qed


lemma fresh_modal_constructed:
  "new_Modal {''transition''} ArgUndefined blank_page = Inr fresh_modal"
  using new_Modal_Inr [of ArgUndefined defaults "{''transition''}" blank_page]
  by (simp add: fresh_modal_def extendsDefaults_empty)

section \<open>Time passing\<close>

lemma run_callback_idem: "run_callback cb (run_callback cb s) = run_callback cb s"
  by (cases cb) (simp add: addEventListener_def)

lemma fold_run_callback:
  "fold (\<lambda>(t, cb). run_callback cb) xs s = (if xs = [] then s else run_callback ReAttach s)"
proof (induction xs arbitrary: s)
  case Nil
  then show ?case by simp
next
  case (Cons x xs)
  obtain t cb where x: "x = (t, cb)" by (cases x)
  have cb: "cb = ReAttach" by (cases cb)
  show ?case
    using Cons.IH [of "run_callback ReAttach s"] run_callback_idem [of ReAttach s]
    by (simp add: x cb del: run_callback.simps)
qed

lemma elapse_eq:
  "elapse ms s =
     (if filter (\<lambda>(t, cb). t \<le> ms) (timers s) = []
      then s\<lparr>timers := map (\<lambda>(t, cb). (t - ms, cb)) (filter (\<lambda>(t, cb). \<not> t \<le> ms) (timers s))\<rparr>
      else run_callback ReAttach
        (s\<lparr>timers := map (\<lambda>(t, cb). (t - ms, cb))
                        (filter (\<lambda>(t, cb). \<not> t \<le> ms) (timers s))\<rparr>))"
proof -
  have "sort_key fst xs = [] \<longleftrightarrow> xs = []" for xs :: "(nat \<times> callback) list"
    by (metis length_0_conv length_sort)
  then show ?thesis
    by (simp add: elapse_def fold_run_callback del: run_callback.simps)
qed

lemma elapse_keeps:
  "doc (elapse ms s) = doc s"
  "m_isOpen (elapse ms s) = m_isOpen s"
  "m_modalOpen (elapse ms s) = m_modalOpen s"
  "m_modalClose (elapse ms s) = m_modalClose s"
  "m_transitionend (elapse ms s) = m_transitionend s"
  "m_closeButton (elapse ms s) = m_closeButton s"
  "heap (elapse ms s) = heap s"
  "allocated (elapse ms s) = allocated s"
  "timers (elapse ms s) =
     map (\<lambda>(t, cb). (t - ms, cb)) (filter (\<lambda>(t, cb). \<not> t \<le> ms) (timers s))"
  "listeners (elapse ms s) =
     (if filter (\<lambda>(t, cb). t \<le> ms) (timers s) = [] then listeners s
      else addEventListener (Target Dialog) (event_type (m_transitionend s)) ToggleTransitionend
             (listeners s))"
  by (simp_all add: elapse_eq)

section \<open>Frames of the other operations\<close>

lemma setContent_frame: "snd (setContent c s) = s\<lparr>doc := doc (snd (setContent c s))\<rparr>"
  by (simp add: setContent_def Let_def on_doc_def createTextNode_def
      split: option.splits content_arg.splits prod.splits)

lemma setContent_keeps:
  "listeners (snd (setContent c s)) = listeners s"
  "timers (snd (setContent c s)) = timers s"
  "m_transitionend (snd (setContent c s)) = m_transitionend s"
  by (subst setContent_frame, simp)+

lemma accessor_keeps:
  "listeners (snd (modalOpen s)) = listeners s"
  "m_transitionend (snd (modalOpen s)) = m_transitionend s"
  "listeners (snd (modalClose s)) = listeners s"
  "m_transitionend (snd (modalClose s)) = m_transitionend s"
  "doc (snd (modalOpen s)) = doc s" "doc (snd (modalClose s)) = doc s"
  "timers (snd (modalOpen s)) = timers s" "timers (snd (modalClose s)) = timers s"
  "m_isOpen (snd (modalOpen s)) = m_isOpen s" "m_isOpen (snd (modalClose s)) = m_isOpen s"
  by (simp_all add: modalOpen_def modalClose_def new_PLEvent_def split: option.splits)

section \<open>Only the completion listener\<close>






section \<open>The handshake does not depend on the close button\<close>

lemma fst_toggleTransitionend:
  "fst (toggleTransitionend s) =
     (if m_isOpen s \<and> \<not> (attached s Overlay \<and> attached s Dialog) then Some TypeError else None)"
  by (cases "m_isOpen s") (simp_all add: fst_toggleTransitionend_open toggleTransitionend_closed)


lemma view_eqD:
  assumes "view s = view t"
  shows "m_isOpen s = m_isOpen t"
    and "className (doc s) Overlay = className (doc t) Overlay"
    and "className (doc s) Dialog = className (doc t) Dialog"
    and "parentNode (doc s) (El Overlay) = parentNode (doc t) (El Overlay)"
    and "parentNode (doc s) (El Dialog) = parentNode (doc t) (El Dialog)"
    and "parentNode (doc s) (El Body) = parentNode (doc t) (El Body)"
    and "m_modalOpen s = m_modalOpen t"
    and "m_modalClose s = m_modalClose t"
    and "heap s = heap t"
    and "allocated s = allocated t"
    and "timers s = timers t"
    and "m_transitionend s = m_transitionend t"
    and "handlers_for (Target Dialog) (event_type (m_transitionend t)) (listeners s) =
      handlers_for (Target Dialog) (event_type (m_transitionend t)) (listeners t)"
    and "parentNode (doc s) (El Html) = parentNode (doc t) (El Html)"
  using assms by (auto simp: view_def)

lemma steady_view:
  assumes "view s = view t" and "steady s"
  shows "steady t"
  using view_eqD [OF assms(1)] assms(2)
  by (simp add: steady_def armed_def disarmed_def)











section \<open>Reachable states\<close>

lemma construct_armed: "armed (snd (construct merged te page))"
  by (simp add: armed_def handlers_for_def construct_facts)

lemma construct_reachable:
  "toggle_in_place (snd (construct merged te page))"
  "rearm_pending (snd (construct merged te page))"
  using construct_armed [of merged te page]
  by (simp_all add: toggle_in_place_def rearm_pending_def construct_facts)

lemma toggle_in_place_handlers:
  "toggle_in_place s \<Longrightarrow> t \<noteq> Target Dialog \<Longrightarrow>
     ToggleTransitionend \<notin> set (handlers_for t ty (listeners s))"
  by (auto simp: toggle_in_place_def handlers_for_def list_all_iff)

lemma gesture_handlers_keep:
  "ToggleTransitionend \<notin> set hs \<Longrightarrow>
     listeners (snd (run_listeners hs keyCode s)) = listeners s \<and>
     timers (snd (run_listeners hs keyCode s)) = timers s \<and>
     m_transitionend (snd (run_listeners hs keyCode s)) = m_transitionend s"
proof (induction hs arbitrary: s)
  case Nil
  then show ?case by simp
next
  case (Cons h hs)
  then have h: "h \<noteq> ToggleTransitionend" and hs: "ToggleTransitionend \<notin> set hs" by auto
  have "listeners (snd (call_handler h keyCode s)) = listeners s \<and>
     timers (snd (call_handler h keyCode s)) = timers s \<and>
     m_transitionend (snd (call_handler h keyCode s)) = m_transitionend s"
    using h by (cases h) (simp_all add: close_keeps returns_def)
  then show ?case
    using Cons.IH [OF hs, of "snd (call_handler h keyCode s)"] by (simp add: split_beta)
qed

lemma reachable_frame:
  assumes "listeners s' = listeners s" "timers s' = timers s"
    "m_transitionend s' = m_transitionend s"
  shows "toggle_in_place s' = toggle_in_place s" "rearm_pending s' = rearm_pending s"
  using assms by (simp_all add: toggle_in_place_def rearm_pending_def armed_def disarmed_def)

lemma reachable_signal:
  assumes "toggle_in_place s" and "rearm_pending s"
  shows "toggle_in_place (snd (completion_signal s)) \<and> rearm_pending (snd (completion_signal s))"
proof (cases "armed s")
  case True
  then have t: "timers s = []" using assms(2) by (simp add: rearm_pending_def)
  have d: "disarmed (snd (toggleTransitionend s))"
    using True by (rule disarmed_after_toggle)
  then have na: "\<not> armed (snd (toggleTransitionend s))"
    by (simp add: armed_def disarmed_def)
  have "toggle_in_place (snd (toggleTransitionend s))"
    using assms(1)
    by (auto simp: toggle_in_place_def toggleTransitionend_facts removeEventListener_def
        list_all_iff)
  moreover have "rearm_pending (snd (toggleTransitionend s))"
    using d na t by (simp add: rearm_pending_def toggleTransitionend_facts)
  ultimately show ?thesis using True by (simp add: completion_signal_armed)
next
  case False
  then have "disarmed s" using assms(2) by (simp add: rearm_pending_def)
  then show ?thesis using assms by (simp add: completion_signal_disarmed)
qed

lemma reachable_elapse:
  assumes "toggle_in_place s" and "rearm_pending s"
  shows "toggle_in_place (elapse ms s) \<and> rearm_pending (elapse ms s)"
proof -
  have 1: "toggle_in_place (elapse ms s)"
    using assms(1)
    by (auto simp: toggle_in_place_def elapse_keeps addEventListener_def list_all_iff)
  have 2: "rearm_pending (elapse ms s)"
  proof (cases "armed s")
    case True
    then show ?thesis
      using assms(2) by (simp add: rearm_pending_def elapse_none)
  next
    case False
    then have d: "disarmed s" and t: "timers s = [] \<or> (\<exists>r. timers s = [(r, ReAttach)])"
      using assms(2) by (simp_all add: rearm_pending_def)
    from t show ?thesis
    proof
      assume "timers s = []"
      then show ?thesis using assms(2) by (simp add: elapse_none)
    next
      assume "\<exists>r. timers s = [(r, ReAttach)]"
      then obtain r where r: "timers s = [(r, ReAttach)]" by auto
      show ?thesis
      proof (cases "r \<le> ms")
        case True
        then show ?thesis
          using d r
          by (simp add: elapse_single_due rearm_pending_def armed_def disarmed_def
              handlers_for_addEventListener)
      next
        case False
        then show ?thesis
          using d r
          by (simp add: elapse_single_pending rearm_pending_def armed_def disarmed_def)
      qed
    qed
  qed
  from 1 2 show ?thesis by simp
qed

lemma reachable_kept:
  assumes "toggle_in_place s" and "rearm_pending s"
    and "listeners s' = listeners s \<and> timers s' = timers s \<and>
      m_transitionend s' = m_transitionend s"
  shows "toggle_in_place s' \<and> rearm_pending s'"
  using assms reachable_frame [of s' s] by simp

lemma reachable_step:
  assumes "toggle_in_place s" and "rearm_pending s"
  shows "toggle_in_place (step i s) \<and> rearm_pending (step i s)"
proof (cases i)
  case Open
  show ?thesis
    unfolding Open by (rule reachable_kept [OF assms]) (simp add: open_modal_keeps)
next
  case Close
  show ?thesis
    unfolding Close by (rule reachable_kept [OF assms]) (simp add: close_keeps)
next
  case Signal
  then show ?thesis using reachable_signal [OF assms] by simp
next
  case (Elapse ms)
  then show ?thesis using reachable_elapse [OF assms] by simp
next
  case ReadModalOpen
  show ?thesis
    unfolding ReadModalOpen by (rule reachable_kept [OF assms]) (simp add: accessor_keeps)
next
  case ReadModalClose
  show ?thesis
    unfolding ReadModalClose by (rule reachable_kept [OF assms]) (simp add: accessor_keeps)
next
  case (KeyDown k)
  have "ToggleTransitionend \<notin> set (handlers_for Document ''keydown'' (listeners s))"
    using assms(1) by (rule toggle_in_place_handlers) simp
  then show ?thesis
    unfolding KeyDown
    by (intro reachable_kept [OF assms]) (simp add: dispatchEvent_def gesture_handlers_keep)
next
  case Click
  have "ToggleTransitionend \<notin> set (handlers_for (Target CloseButton) ''click'' (listeners s))"
    using assms(1) by (rule toggle_in_place_handlers) simp
  then show ?thesis
    unfolding Click
    by (intro reachable_kept [OF assms]) (simp add: dispatchEvent_def gesture_handlers_keep)
next
  case (SetContent c)
  show ?thesis
    unfolding SetContent by (rule reachable_kept [OF assms]) (simp add: setContent_keeps)
qed

lemma reachable_run:
  "toggle_in_place s \<Longrightarrow> rearm_pending s \<Longrightarrow>
     toggle_in_place (run ins s) \<and> rearm_pending (run ins s)"
proof (induction ins arbitrary: s)
  case Nil
  then show ?case by (simp add: run_def)
next
  case (Cons i ins)
  have "toggle_in_place (step i s) \<and> rearm_pending (step i s)"
    using Cons.prems by (rule reachable_step)
  then have "toggle_in_place (run ins (step i s)) \<and> rearm_pending (run ins (step i s))"
    using Cons.IH [of "step i s"] by simp
  then show ?case by (simp add: run_def)
qed

lemma reachable_armed_no_timer:
  "armed (run ins (snd (construct merged te page))) \<Longrightarrow>
     timers (run ins (snd (construct merged te page))) = []"
  using reachable_run [OF construct_reachable [of merged te page], of ins]
  by (simp add: rearm_pending_def)

text \<open>
  Once the completion listener is detached with no timer pending, nothing the widget does
  attaches it again.
\<close>

lemma detached_kept:
  assumes "toggle_in_place s" and "disarmed s" and "timers s = []"
    and "listeners s' = listeners s \<and> timers s' = timers s \<and>
      m_transitionend s' = m_transitionend s"
  shows "toggle_in_place s' \<and> disarmed s' \<and> timers s' = []"
  using assms by (simp add: toggle_in_place_def disarmed_def)

lemma detached_step:
  assumes "toggle_in_place s" and "disarmed s" and "timers s = []"
  shows "toggle_in_place (step i s) \<and> disarmed (step i s) \<and> timers (step i s) = []"
proof (cases i)
  case Open
  show ?thesis
    unfolding Open by (rule detached_kept [OF assms]) (simp add: open_modal_keeps)
next
  case Close
  show ?thesis
    unfolding Close by (rule detached_kept [OF assms]) (simp add: close_keeps)
next
  case Signal
  then show ?thesis using assms by (simp add: completion_signal_disarmed)
next
  case (Elapse ms)
  then show ?thesis using assms by (simp add: elapse_none)
next
  case ReadModalOpen
  show ?thesis
    unfolding ReadModalOpen by (rule detached_kept [OF assms]) (simp add: accessor_keeps)
next
  case ReadModalClose
  show ?thesis
    unfolding ReadModalClose by (rule detached_kept [OF assms]) (simp add: accessor_keeps)
next
  case (KeyDown k)
  have "ToggleTransitionend \<notin> set (handlers_for Document ''keydown'' (listeners s))"
    using assms(1) by (rule toggle_in_place_handlers) simp
  then show ?thesis
    unfolding KeyDown
    by (intro detached_kept [OF assms]) (simp add: dispatchEvent_def gesture_handlers_keep)
next
  case Click
  have "ToggleTransitionend \<notin> set (handlers_for (Target CloseButton) ''click'' (listeners s))"
    using assms(1) by (rule toggle_in_place_handlers) simp
  then show ?thesis
    unfolding Click
    by (intro detached_kept [OF assms]) (simp add: dispatchEvent_def gesture_handlers_keep)
next
  case (SetContent c)
  show ?thesis
    unfolding SetContent by (rule detached_kept [OF assms]) (simp add: setContent_keeps)
qed

lemma detached_run:
  "toggle_in_place s \<Longrightarrow> disarmed s \<Longrightarrow> timers s = [] \<Longrightarrow>
     toggle_in_place (run ins s) \<and> disarmed (run ins s) \<and> timers (run ins s) = []"
proof (induction ins arbitrary: s)
  case Nil
  then show ?case by (simp add: run_def)
next
  case (Cons i ins)
  have "toggle_in_place (step i s) \<and> disarmed (step i s) \<and> timers (step i s) = []"
    using Cons.prems by (rule detached_step)
  then have "toggle_in_place (run ins (step i s)) \<and> disarmed (run ins (step i s)) \<and>
      timers (run ins (step i s)) = []"
    using Cons.IH [of "step i s"] by simp
  then show ?case by (simp add: run_def)
qed

section \<open>The debounce in reachable states\<close>

text \<open>The debounce, from any state with the listener attached and no timer pending.\<close>

lemma debounce_from_armed:
  "armed s \<and> timers s = [] \<and> sum_list ds < 50 \<longrightarrow>
     disarmed (snd (completion_signal s)) \<and>
     heap (snd (completion_signal s)) =
       (case completion_channel s of
          Some r \<Rightarrow> (heap s)(r := fire (heap s r)) | None \<Rightarrow> heap s) \<and>
     m_isOpen (snd (completion_signal s)) =
       (if fst (completion_signal s) = [] then \<not> m_isOpen s else m_isOpen s) \<and>
     m_isOpen (burst ds (snd (completion_signal s))) = m_isOpen (snd (completion_signal s)) \<and>
     heap (burst ds (snd (completion_signal s))) = heap (snd (completion_signal s)) \<and>
     doc (burst ds (snd (completion_signal s))) = doc (snd (completion_signal s)) \<and>
     disarmed (burst ds (snd (completion_signal s))) \<and>
     (\<forall>r. completion_channel s = Some r \<longrightarrow>
        fired (heap (burst ds (snd (completion_signal s))) r) = Suc (fired (heap s r))) \<and>
     (fst (completion_signal s) = [] \<longrightarrow>
        timers (snd (completion_signal s)) = [(50, ReAttach)] \<and>
        (\<forall>d<50. disarmed (elapse d (snd (completion_signal s)))) \<and>
        (\<forall>d\<ge>50. armed (elapse d (snd (completion_signal s)))))"
proof (intro impI)
  assume a: "armed s \<and> timers s = [] \<and> sum_list ds < 50"
  define s1 where "s1 = snd (toggleTransitionend s)"
  have cs: "completion_signal s =
      ((case fst (toggleTransitionend s) of None \<Rightarrow> [] | Some e \<Rightarrow> [e]), s1)"
    using a by (simp add: completion_signal_armed s1_def)
  have ok: "fst (completion_signal s) = [] \<longleftrightarrow> fst (toggleTransitionend s) = None"
    by (simp add: cs split: option.splits)
  have dis: "disarmed s1"
    using a by (simp add: s1_def disarmed_after_toggle)
  have t: "timers s1 = [] \<or> (\<exists>r. timers s1 = [(r, ReAttach)] \<and> sum_list ds < r)"
    using a by (simp add: s1_def toggleTransitionend_facts)
  note q = burst_quiet [OF dis t]
  have h: "heap s1 =
       (case completion_channel s of
          Some r \<Rightarrow> (heap s)(r := fire (heap s r)) | None \<Rightarrow> heap s)"
    by (simp add: s1_def toggleTransitionend_facts)
  have once: "fired (heap (burst ds s1) r) = Suc (fired (heap s r))"
    if "completion_channel s = Some r" for r
    using that q h by (simp add: fire_def)
  have re: "timers s1 = [(50, ReAttach)] \<and> (\<forall>d<50. disarmed (elapse d s1)) \<and>
      (\<forall>d\<ge>50. armed (elapse d s1))"
    if "fst (toggleTransitionend s) = None"
    using rearm_after_toggle [of s] a that by (simp add: s1_def)
  show "disarmed (snd (completion_signal s)) \<and>
     heap (snd (completion_signal s)) =
       (case completion_channel s of
          Some r \<Rightarrow> (heap s)(r := fire (heap s r)) | None \<Rightarrow> heap s) \<and>
     m_isOpen (snd (completion_signal s)) =
       (if fst (completion_signal s) = [] then \<not> m_isOpen s else m_isOpen s) \<and>
     m_isOpen (burst ds (snd (completion_signal s))) = m_isOpen (snd (completion_signal s)) \<and>
     heap (burst ds (snd (completion_signal s))) = heap (snd (completion_signal s)) \<and>
     doc (burst ds (snd (completion_signal s))) = doc (snd (completion_signal s)) \<and>
     disarmed (burst ds (snd (completion_signal s))) \<and>
     (\<forall>r. completion_channel s = Some r \<longrightarrow>
        fired (heap (burst ds (snd (completion_signal s))) r) = Suc (fired (heap s r))) \<and>
     (fst (completion_signal s) = [] \<longrightarrow>
        timers (snd (completion_signal s)) = [(50, ReAttach)] \<and>
        (\<forall>d<50. disarmed (elapse d (snd (completion_signal s)))) \<and>
        (\<forall>d\<ge>50. armed (elapse d (snd (completion_signal s)))))"
    unfolding ok
    using dis q h once re
    by (simp add: cs) (simp add: s1_def toggleTransitionend_facts)
qed

text \<open>When the handler throws: no timer is set, so the listener stays detached for good.\<close>

lemma no_rearm_after_throw:
  assumes "armed s" and "timers s = []" and "toggle_in_place s"
  shows "(fst (completion_signal s) = []) =
           (m_isOpen s \<longrightarrow> attached s Overlay \<and> attached s Dialog)"
    and "fst (completion_signal s) \<noteq> [] \<Longrightarrow> fst (completion_signal s) = [TypeError]"
    and "fst (completion_signal s) \<noteq> [] \<Longrightarrow> timers (snd (completion_signal s)) = []"
    and "fst (completion_signal s) \<noteq> [] \<Longrightarrow> disarmed (run later (snd (completion_signal s)))"
proof -
  define s1 where "s1 = snd (toggleTransitionend s)"
  have cs: "completion_signal s =
      ((case fst (toggleTransitionend s) of None \<Rightarrow> [] | Some e \<Rightarrow> [e]), s1)"
    using assms(1) by (simp add: completion_signal_armed s1_def)
  show "(fst (completion_signal s) = []) =
           (m_isOpen s \<longrightarrow> attached s Overlay \<and> attached s Dialog)"
    by (simp add: cs fst_toggleTransitionend)
  show e: "fst (completion_signal s) = [TypeError]" if "fst (completion_signal s) \<noteq> []"
    using that by (simp add: cs fst_toggleTransitionend split: if_splits)
  show t: "timers (snd (completion_signal s)) = []" if "fst (completion_signal s) \<noteq> []"
    using e [OF that] assms(2)
    by (simp add: cs s1_def toggleTransitionend_facts(3) split: option.splits)
  have d: "disarmed (snd (completion_signal s))"
    using assms(1) by (simp add: cs s1_def disarmed_after_toggle)
  have "rearm_pending s"
    using assms(1,2) by (simp add: rearm_pending_def)
  then have p: "toggle_in_place (snd (completion_signal s))"
    using reachable_signal [OF assms(3)] by simp
  show "disarmed (run later (snd (completion_signal s)))" if "fst (completion_signal s) \<noteq> []"
    using detached_run [OF p d t [OF that], of later] by simp
qed

lemma with_open_channel:
  "snd (modalOpen fresh_modal) =
     fresh_modal\<lparr>heap := (heap fresh_modal)(0 := \<lparr>fired = 0\<rparr>), allocated := Suc 0,
                 m_modalOpen := Some 0\<rparr>"
  by (simp add: modalOpen_first fresh_modal_fields)

lemma never_attached_run: "never_attached = run [Signal, Elapse 50] fresh_modal"
  by (simp add: run_def never_attached_def)

text \<open>
  Claim C3 as stated fails: the listener is not always attached again.  A fresh widget that
  receives a completion signal (with no call of \<^verbatim>\<open>open()\<close>) and then waits 50 ms has the
  listener attached and \<^verbatim>\<open>_isOpen\<close> true, while overlay and dialog have no parent.  The next
  completion signal is processed: the listener is detached, then \<^verbatim>\<open>removeFromDom\<close> throws
  before the timer is set.  No timer is pending, and after 50 ms, or any later time, the
  listener is still detached; a further completion signal finds no listener.
\<close>

theorem debounce_no_rearm_counterexample:
  "new_Modal {''transition''} ArgUndefined blank_page = Inr fresh_modal \<and>
   never_attached = run [Signal, Elapse 50] fresh_modal \<and>
   armed never_attached \<and>
   fst (completion_signal never_attached) = [TypeError] \<and>
   disarmed (snd (completion_signal never_attached)) \<and>
   timers (snd (completion_signal never_attached)) = [] \<and>
   disarmed (elapse 50 (snd (completion_signal never_attached))) \<and>
   disarmed (elapse 100000 (snd (completion_signal never_attached))) \<and>
   completion_signal (elapse 50 (snd (completion_signal never_attached))) =
     ([], elapse 50 (snd (completion_signal never_attached)))"
proof -
  have p: "parentNode (doc never_attached) (El Overlay) = None"
    using never_attached_fields(3) by (simp add: attached_def)
  have e: "fst (completion_signal never_attached) = [TypeError]"
    by (simp add: never_attached_fields completion_signal_armed
        toggleTransitionend_open_no_overlay p)
  have d: "disarmed (snd (completion_signal never_attached))"
    by (simp add: never_attached_fields completion_signal_armed disarmed_after_toggle)
  have "timers never_attached = []"
    by (simp add: never_attached_eq fresh_modal_fields)
  then have t: "timers (snd (completion_signal never_attached)) = []"
    by (simp add: never_attached_fields completion_signal_armed toggleTransitionend_facts(3)
        fst_toggleTransitionend)
  show ?thesis
    using e d t
    by (simp add: fresh_modal_constructed never_attached_run [symmetric] never_attached_fields
        elapse_none completion_signal_disarmed)
qed

text \<open>
  Claim C3, amended.  Take any state the widget reaches after its construction, and let a
  completion signal find the listener attached.  The handler detaches the listener at once:
  after the signal it is not registered.  It fires the channel of the direction once, and it
  returns normally, flipping \<^verbatim>\<open>_isOpen\<close>, unless \<^verbatim>\<open>_isOpen\<close> is true and overlay or dialog has
  no parent.  Further completion signals that arrive within less than 50 ms in total find no
  listener: \<^verbatim>\<open>_isOpen\<close>, the channels and the document stay as the first signal left them, so
  the channel has fired exactly once.  When the handler returned, one timer of 50 ms is
  pending; before it is due the listener stays detached, and once 50 ms have passed it is
  attached again.  When the handler threw (a \<^verbatim>\<open>TypeError\<close>), no timer is pending and the
  listener stays detached whatever happens later.
\<close>

theorem completion_debounce:
  "new_Modal style settings page = Inr s0 \<and> s = run ins s0 \<and> armed s \<and> sum_list ds < 50 \<longrightarrow>
     disarmed (snd (completion_signal s)) \<and>
     heap (snd (completion_signal s)) =
       (case completion_channel s of
          Some r \<Rightarrow> (heap s)(r := fire (heap s r)) | None \<Rightarrow> heap s) \<and>
     (fst (completion_signal s) = []) =
       (m_isOpen s \<longrightarrow> attached s Overlay \<and> attached s Dialog) \<and>
     m_isOpen (snd (completion_signal s)) =
       (if fst (completion_signal s) = [] then \<not> m_isOpen s else m_isOpen s) \<and>
     m_isOpen (burst ds (snd (completion_signal s))) = m_isOpen (snd (completion_signal s)) \<and>
     heap (burst ds (snd (completion_signal s))) = heap (snd (completion_signal s)) \<and>
     doc (burst ds (snd (completion_signal s))) = doc (snd (completion_signal s)) \<and>
     disarmed (burst ds (snd (completion_signal s))) \<and>
     (\<forall>r. completion_channel s = Some r \<longrightarrow>
        fired (heap (burst ds (snd (completion_signal s))) r) = Suc (fired (heap s r))) \<and>
     (fst (completion_signal s) = [] \<longrightarrow>
        timers (snd (completion_signal s)) = [(50, ReAttach)] \<and>
        (\<forall>d<50. disarmed (elapse d (snd (completion_signal s)))) \<and>
        (\<forall>d\<ge>50. armed (elapse d (snd (completion_signal s))))) \<and>
     (fst (completion_signal s) \<noteq> [] \<longrightarrow>
        fst (completion_signal s) = [TypeError] \<and>
        timers (snd (completion_signal s)) = [] \<and>
        (\<forall>later. disarmed (run later (snd (completion_signal s)))))"
proof (intro impI)
  assume a: "new_Modal style settings page = Inr s0 \<and> s = run ins s0 \<and> armed s \<and>
    sum_list ds < 50"
  from a have n: "new_Modal style settings page = Inr s0" by (rule conjunct1)
  from a have s: "s = run ins s0" by (rule conjunct2 [THEN conjunct1])
  from a have ar: "armed s" by (rule conjunct2 [THEN conjunct2, THEN conjunct1])
  from a have su: "sum_list ds < 50" by (rule conjunct2 [THEN conjunct2, THEN conjunct2])
  note c = new_Modal_InrD(2) [OF n]
  have "armed (run ins (snd (construct (m_settings s0) (transitionSelect style) page)))"
    using ar s c by simp
  then have "timers (run ins (snd (construct (m_settings s0) (transitionSelect style) page))) = []"
    by (rule reachable_armed_no_timer)
  then have t: "timers s = []"
    using s c by simp
  have "toggle_in_place (run ins (snd (construct (m_settings s0) (transitionSelect style) page)))"
    using reachable_run
      [OF construct_reachable [of "m_settings s0" "transitionSelect style" page], of ins]
    by simp
  then have p: "toggle_in_place s"
    using s c by simp
  note r = no_rearm_after_throw [OF ar t p]
  from ar t su have "armed s \<and> timers s = [] \<and> sum_list ds < 50" by blast
  then have "disarmed (snd (completion_signal s)) \<and>
     heap (snd (completion_signal s)) =
       (case completion_channel s of
          Some r \<Rightarrow> (heap s)(r := fire (heap s r)) | None \<Rightarrow> heap s) \<and>
     m_isOpen (snd (completion_signal s)) =
       (if fst (completion_signal s) = [] then \<not> m_isOpen s else m_isOpen s) \<and>
     m_isOpen (burst ds (snd (completion_signal s))) = m_isOpen (snd (completion_signal s)) \<and>
     heap (burst ds (snd (completion_signal s))) = heap (snd (completion_signal s)) \<and>
     doc (burst ds (snd (completion_signal s))) = doc (snd (completion_signal s)) \<and>
     disarmed (burst ds (snd (completion_signal s))) \<and>
     (\<forall>r. completion_channel s = Some r \<longrightarrow>
        fired (heap (burst ds (snd (completion_signal s))) r) = Suc (fired (heap s r))) \<and>
     (fst (completion_signal s) = [] \<longrightarrow>
        timers (snd (completion_signal s)) = [(50, ReAttach)] \<and>
        (\<forall>d<50. disarmed (elapse d (snd (completion_signal s)))) \<and>
        (\<forall>d\<ge>50. armed (elapse d (snd (completion_signal s)))))"
    using debounce_from_armed [of s ds] by blast
  then show "disarmed (snd (completion_signal s)) \<and>
     heap (snd (completion_signal s)) =
       (case completion_channel s of
          Some r \<Rightarrow> (heap s)(r := fire (heap s r)) | None \<Rightarrow> heap s) \<and>
     (fst (completion_signal s) = []) =
       (m_isOpen s \<longrightarrow> attached s Overlay \<and> attached s Dialog) \<and>
     m_isOpen (snd (completion_signal s)) =
       (if fst (completion_signal s) = [] then \<not> m_isOpen s else m_isOpen s) \<and>
     m_isOpen (burst ds (snd (completion_signal s))) = m_isOpen (snd (completion_signal s)) \<and>
     heap (burst ds (snd (completion_signal s))) = heap (snd (completion_signal s)) \<and>
     doc (burst ds (snd (completion_signal s))) = doc (snd (completion_signal s)) \<and>
     disarmed (burst ds (snd (completion_signal s))) \<and>
     (\<forall>r. completion_channel s = Some r \<longrightarrow>
        fired (heap (burst ds (snd (completion_signal s))) r) = Suc (fired (heap s r))) \<and>
     (fst (completion_signal s) = [] \<longrightarrow>
        timers (snd (completion_signal s)) = [(50, ReAttach)] \<and>
        (\<forall>d<50. disarmed (elapse d (snd (completion_signal s)))) \<and>
        (\<forall>d\<ge>50. armed (elapse d (snd (completion_signal s))))) \<and>
     (fst (completion_signal s) \<noteq> [] \<longrightarrow>
        fst (completion_signal s) = [TypeError] \<and>
        timers (snd (completion_signal s)) = [] \<and>
        (\<forall>later. disarmed (run later (snd (completion_signal s)))))"
    using r by blast
qed

theorem completion_debounce_witness:
  "new_Modal {''transition''} ArgUndefined blank_page = Inr fresh_modal \<and>
   snd (modalOpen fresh_modal) = run [ReadModalOpen] fresh_modal \<and>
   armed (snd (modalOpen fresh_modal)) \<and>
   sum_list [10, 20, 5] < (50 :: nat) \<and>
   completion_channel (snd (modalOpen fresh_modal)) = Some 0 \<and>
   fst (completion_signal (snd (modalOpen fresh_modal))) = [] \<and>
   m_isOpen (burst [10, 20, 5] (snd (completion_signal (snd (modalOpen fresh_modal))))) \<and>
   fired (heap (burst [10, 20, 5] (snd (completion_signal (snd (modalOpen fresh_modal))))) 0) = 1 \<and>
   disarmed (elapse 49 (snd (completion_signal (snd (modalOpen fresh_modal))))) \<and>
   armed (elapse 50 (snd (completion_signal (snd (modalOpen fresh_modal))))) \<and>
   never_attached = run [Signal, Elapse 50] fresh_modal \<and>
   armed never_attached \<and> m_isOpen never_attached \<and> \<not> attached never_attached Overlay \<and>
   fst (completion_signal never_attached) = [TypeError] \<and>
   timers (snd (completion_signal never_attached)) = [] \<and>
   disarmed (run [Elapse 50, Open, Signal, Elapse 1000] (snd (completion_signal never_attached)))"
proof -
  have r: "snd (modalOpen fresh_modal) = run [ReadModalOpen] fresh_modal"
    by (simp add: run_def)
  have a: "armed (snd (modalOpen fresh_modal))"
    "\<not> m_isOpen (snd (modalOpen fresh_modal))"
    "completion_channel (snd (modalOpen fresh_modal)) = Some 0"
    "fired (heap (snd (modalOpen fresh_modal)) 0) = 0"
    using fresh_modal_armed
    by (simp_all add: with_open_channel fresh_modal_fields completion_channel_def)
  have "fst (completion_signal (snd (modalOpen fresh_modal))) = []"
    using a by (simp add: completion_signal_armed toggleTransitionend_closed)
  then show ?thesis
    using completion_debounce [of "{''transition''}" ArgUndefined blank_page fresh_modal
        "snd (modalOpen fresh_modal)" "[ReadModalOpen]" "[10, 20, 5]"]
      completion_debounce [of "{''transition''}" ArgUndefined blank_page fresh_modal
        never_attached "[Signal, Elapse 50]" "[]"]
      a r never_attached_run never_attached_fields fresh_modal_constructed
    by (simp add: fire_def del: burst.simps)
qed

section \<open>The settings the constructor stores\<close>

text \<open>
  Claim C10 as stated fails.  The settings object \<^verbatim>\<open>{hasOwnProperty: "x"}\<close> hides the built-in
  method with a string, so the test \<^verbatim>\<open>settings.hasOwnProperty(property)\<close> throws a
  \<^verbatim>\<open>TypeError\<close>: nothing is copied and the constructor throws.  An own property named
  \<^verbatim>\<open>__proto__\<close> (as \<^verbatim>\<open>JSON.parse\<close> creates it) is not copied either: the assignment runs the
  prototype setter of the defaults object and creates no property.
\<close>

theorem extendsDefaults_counterexample:
  "map_of (own shadowing_settings) ''hasOwnProperty'' = Some (JStr ''x'') \<and>
   extendsDefaults defaults shadowing_settings = (Some TypeError, defaults) \<and>
   map_of (own defaults) ''hasOwnProperty'' = None \<and>
   new_Modal {''transition''} (ArgObject shadowing_settings) blank_page =
     Inl (TypeError, blank_page, []) \<and>
   builtin_hasOwnProperty proto_settings \<and>
   map_of (own proto_settings) ''__proto__'' = Some (JStr ''x'') \<and>
   extendsDefaults defaults proto_settings = (None, defaults) \<and>
   map_of (own defaults) ''__proto__'' = None"
proof -
  have 1: "extendsDefaults defaults shadowing_settings = (Some TypeError, defaults)"
    by (simp add: shadowing_settings_def object_defs throw_def)
  have 2: "extendsDefaults defaults proto_settings = (None, defaults)"
    by (simp add: proto_settings_def object_defs returns_def)
  show ?thesis
    using new_Modal_Inl [of "ArgObject shadowing_settings" TypeError defaults
        "{''transition''}" blank_page]
    by (simp add: 1 2) (simp add: shadowing_settings_def proto_settings_def defaults_def
        builtin_hasOwnProperty_def)
qed

text \<open>
  Claim C10, amended.  When \<^verbatim>\<open>settings.hasOwnProperty\<close> is the built-in method, the merge
  returns normally, and for every key other than \<^verbatim>\<open>__proto__\<close> the own properties of the
  target afterwards are those of the settings object, with its values, and otherwise those the
  target had (so \<^verbatim>\<open>className\<close> and \<^verbatim>\<open>avoidClose\<close> are overwritten, unrecognised keys are kept,
  and inherited properties of the settings object are not copied).  The same holds for the key
  \<^verbatim>\<open>__proto__\<close> when the target treats it as a plain name; the defaults object does not, and
  never gets an own property of that name.  The constructor then returns an instance that
  stores the merged defaults.  When \<^verbatim>\<open>settings.hasOwnProperty\<close> is not the built-in method and
  the loop has a key to visit, the merge throws a \<^verbatim>\<open>TypeError\<close> and leaves the target as it
  was, and the constructor throws before it touches the page.  With no key to visit the
  target is returned as it is.  For \<^verbatim>\<open>null\<close> and \<^verbatim>\<open>undefined\<close> the constructor merges an empty
  object, so the instance stores the defaults: \<^verbatim>\<open>className\<close> empty and \<^verbatim>\<open>avoidClose\<close> true.
\<close>

theorem extendsDefaults_merges:
  "(builtin_hasOwnProperty settings \<longrightarrow>
      fst (extendsDefaults source settings) = None \<and>
      (k \<noteq> ''__proto__'' \<or> plain_proto source \<longrightarrow>
         map_of (own (snd (extendsDefaults source settings))) k =
           (case map_of (own settings) k of
              Some v \<Rightarrow> Some v | None \<Rightarrow> map_of (own source) k)) \<and>
      (\<not> plain_proto source \<longrightarrow>
         map_of (own (snd (extendsDefaults source settings))) ''__proto__'' = None) \<and>
      (\<exists>s. new_Modal style (ArgObject settings) page = Inr s \<and>
           m_settings s = snd (extendsDefaults defaults settings))) \<and>
   (\<not> builtin_hasOwnProperty settings \<and> for_in_keys settings \<noteq> [] \<longrightarrow>
      extendsDefaults source settings = (Some TypeError, source) \<and>
      new_Modal style (ArgObject settings) page = Inl (TypeError, page, [])) \<and>
   (for_in_keys settings = [] \<longrightarrow> extendsDefaults source settings = (None, source)) \<and>
   (\<exists>s. new_Modal style ArgNull page = Inr s \<and> m_settings s = defaults) \<and>
   (\<exists>s. new_Modal style ArgUndefined page = Inr s \<and> m_settings s = defaults) \<and>
   \<not> plain_proto defaults \<and>
   get_prop defaults ''className'' = JStr '''' \<and>
   get_prop defaults ''avoidClose'' = JBool True"
proof -
  have 1: "\<exists>s. new_Modal style (ArgObject settings) page = Inr s \<and>
      m_settings s = snd (extendsDefaults defaults settings)"
    if "builtin_hasOwnProperty settings"
  proof -
    have "extendsDefaults defaults (settings_or_empty (ArgObject settings)) =
        (None, snd (extendsDefaults defaults settings))"
      using extendsDefaults_returns [OF that, of defaults] by (simp add: prod_eq_iff)
    then have "new_Modal style (ArgObject settings) page =
        Inr (snd (construct (snd (extendsDefaults defaults settings)) (transitionSelect style)
                    page))"
      by (rule new_Modal_Inr)
    then show ?thesis
      by (simp add: m_settings_construct)
  qed
  have 2: "new_Modal style (ArgObject settings) page = Inl (TypeError, page, [])"
    if "\<not> builtin_hasOwnProperty settings" "for_in_keys settings \<noteq> []"
    using extendsDefaults_throws [OF that, of defaults]
    by (simp add: new_Modal_Inl)
  have 3: "\<exists>s. new_Modal style arg page = Inr s \<and> m_settings s = defaults"
    if "settings_or_empty arg = empty_object" for arg
  proof -
    have "new_Modal style arg page =
        Inr (snd (construct defaults (transitionSelect style) page))"
      by (rule new_Modal_Inr) (simp add: that extendsDefaults_empty)
    then show ?thesis
      by (simp add: m_settings_construct)
  qed
  have 4: "get_prop defaults ''className'' = JStr ''''"
    "get_prop defaults ''avoidClose'' = JBool True"
    by (simp_all add: get_prop_def defaults_def)
  show ?thesis
    using 1 2 3 [of ArgNull] 3 [of ArgUndefined] 4
    by (simp add: extendsDefaults_returns extendsDefaults_own extendsDefaults_proto
        extendsDefaults_throws extendsDefaults_no_keys plain_proto_defaults)
qed

theorem extendsDefaults_merges_witness:
  "builtin_hasOwnProperty themed_settings \<and>
   fst (extendsDefaults defaults themed_settings) = None \<and>
   map_of (own (snd (extendsDefaults defaults themed_settings))) ''className'' =
     Some (JStr ''big'') \<and>
   map_of (own (snd (extendsDefaults defaults themed_settings))) ''theme'' =
     Some (JStr ''dark'') \<and>
   map_of (own (snd (extendsDefaults defaults themed_settings))) ''avoidClose'' =
     Some (JBool True) \<and>
   builtin_hasOwnProperty null_proto_settings \<and> \<not> plain_proto defaults \<and>
   map_of (own null_proto_settings) ''__proto__'' = Some JNull \<and>
   map_of (own (snd (extendsDefaults defaults null_proto_settings))) ''__proto__'' = None \<and>
   \<not> builtin_hasOwnProperty shadowing_settings \<and> for_in_keys shadowing_settings \<noteq> [] \<and>
   extendsDefaults defaults shadowing_settings = (Some TypeError, defaults) \<and>
   new_Modal {''transition''} (ArgObject shadowing_settings) blank_page =
     Inl (TypeError, blank_page, []) \<and>
   for_in_keys empty_object = [] \<and>
   extendsDefaults defaults empty_object = (None, defaults)"
  using extendsDefaults_merges [of themed_settings defaults "''className''" "{''transition''}"
      blank_page]
    extendsDefaults_merges [of themed_settings defaults "''theme''" "{''transition''}"
      blank_page]
    extendsDefaults_merges [of themed_settings defaults "''avoidClose''" "{''transition''}"
      blank_page]
    extendsDefaults_merges [of null_proto_settings defaults "''__proto__''" "{''transition''}"
      blank_page]
    extendsDefaults_merges [of shadowing_settings defaults "''className''" "{''transition''}"
      blank_page]
    extendsDefaults_merges [of empty_object defaults "''className''" "{''transition''}"
      blank_page]
  by (simp add: themed_settings_def null_proto_settings_def shadowing_settings_def
      empty_object_def builtin_hasOwnProperty_def for_in_keys_def defaults_def)

end
